theory Spec2Isabelle
  imports Complex_Main
begin

section \<open>String operations used by the request override\<close>

text \<open>
  JavaScript strings are modelled as \<^typ>\<open>string\<close>. Every pattern the source searches for is
  ASCII, so searching and splicing do not depend on how other characters are encoded.
\<close>

definition startsWith :: "string \<Rightarrow> string \<Rightarrow> bool" where
  \<comment> \<open>\<open>s.startsWith(p)\<close>\<close>
  "startsWith s p = (take (length p) s = p)"

fun includes_str :: "string \<Rightarrow> string \<Rightarrow> bool" where
  \<comment> \<open>\<open>s.includes(p)\<close>: \<open>p\<close> occurs somewhere in \<open>s\<close>\<close>
  "includes_str [] p = (p = [])"
| "includes_str (c # cs) p = (startsWith (c # cs) p \<or> includes_str cs p)"

fun GetSubstitution :: "string \<Rightarrow> string \<Rightarrow> string \<Rightarrow> string \<Rightarrow> string" where
  \<comment> \<open>The replacement text of \<open>String.prototype.replace\<close> for a match without capture groups:
      \<open>$$\<close> is a dollar sign, \<open>$&\<close> the matched text, \<open>$`\<close> the text before the match and
      \<open>$'\<close> the text after it; any other \<open>$\<close> stays as it is.\<close>
  "GetSubstitution matched pre post [] = []"
| "GetSubstitution matched pre post [c] = [c]"
| "GetSubstitution matched pre post (c # d # ds) =
     (if c = CHR ''$'' then
        (if d = CHR ''$'' then CHR ''$'' # GetSubstitution matched pre post ds
         else if d = CHR ''&'' then matched @ GetSubstitution matched pre post ds
         else if d = CHR 0x60 then pre @ GetSubstitution matched pre post ds
         else if d = CHR 0x27 then post @ GetSubstitution matched pre post ds
         else c # GetSubstitution matched pre post (d # ds))
      else c # GetSubstitution matched pre post (d # ds))"

fun has_dollar_pattern :: "string \<Rightarrow> bool" where
  \<comment> \<open>the replacement text contains one of \<open>$$\<close>, \<open>$&\<close>, \<open>$`\<close>, \<open>$'\<close>\<close>
  "has_dollar_pattern [] = False"
| "has_dollar_pattern [c] = False"
| "has_dollar_pattern (c # d # ds) =
     (c = CHR ''$'' \<and> (d = CHR ''$'' \<or> d = CHR ''&'' \<or> d = CHR 0x60 \<or> d = CHR 0x27)
      \<or> has_dollar_pattern (d # ds))"

definition splice :: "string \<Rightarrow> nat \<Rightarrow> nat \<Rightarrow> string \<Rightarrow> string" where
  \<comment> \<open>the result of \<open>replace\<close> once the match (start and length) is known\<close>
  "splice s i n replacement =
     take i s
     @ GetSubstitution (take n (drop i s)) (take i s) (drop (i + n) s) replacement
     @ drop (i + n) s"

fun indexOf :: "string \<Rightarrow> string \<Rightarrow> nat option" where
  \<comment> \<open>first position at which the literal pattern occurs\<close>
  "indexOf [] p = (if p = [] then Some 0 else None)"
| "indexOf (c # cs) p =
     (if startsWith (c # cs) p then Some 0 else map_option Suc (indexOf cs p))"

definition replace_string :: "string \<Rightarrow> string \<Rightarrow> string \<Rightarrow> string" where
  \<comment> \<open>\<open>s.replace(pattern, replacement)\<close> with a string pattern: the first occurrence only\<close>
  "replace_string s p replacement =
     (case indexOf s p of None \<Rightarrow> s | Some i \<Rightarrow> splice s i (length p) replacement)"

subsection \<open>The regular expressions \<open>/https:\/\/[^\/]+\.googleapis\.com/\<close> and its \<open>http\<close> twin\<close>

definition googleapis :: string where
  "googleapis = ''.googleapis.com''"

fun backtrack :: "string \<Rightarrow> nat \<Rightarrow> nat option" where
  \<comment> \<open>\<open>[^\/]+\<close> is greedy: it first takes the whole run of non-slash characters and gives
      characters back one at a time, keeping at least one, until \<open>\.googleapis\.com\<close> follows.\<close>
  "backtrack run 0 = None"
| "backtrack run (Suc k) =
     (if startsWith (drop (Suc k) run) googleapis then Some (Suc k) else backtrack run k)"

definition match_here :: "string \<Rightarrow> string \<Rightarrow> nat option" where
  \<comment> \<open>length of the match that starts at the head of \<open>s\<close>, for the scheme literal \<open>lit\<close>\<close>
  "match_here lit s =
     (if startsWith s lit then
        (let run = takeWhile (\<lambda>c. c \<noteq> CHR ''/'') (drop (length lit) s)
         in map_option (\<lambda>k. length lit + k + length googleapis) (backtrack run (length run)))
      else None)"

fun regex_exec :: "string \<Rightarrow> string \<Rightarrow> (nat \<times> nat) option" where
  \<comment> \<open>leftmost match: start position and length\<close>
  "regex_exec lit [] = map_option (Pair 0) (match_here lit [])"
| "regex_exec lit (c # cs) =
     (case match_here lit (c # cs) of
        Some n \<Rightarrow> Some (0, n)
      | None \<Rightarrow> map_option (\<lambda>(i, n). (Suc i, n)) (regex_exec lit cs))"

definition replace_regex :: "string \<Rightarrow> string \<Rightarrow> string \<Rightarrow> string" where
  \<comment> \<open>\<open>s.replace(/lit[^\/]+\.googleapis\.com/, replacement)\<close>: no \<open>g\<close> flag, first match only\<close>
  "replace_regex s lit replacement =
     (case regex_exec lit s of None \<Rightarrow> s | Some (i, n) \<Rightarrow> splice s i n replacement)"

subsection \<open>Redirecting a uri to the emulator\<close>

definition is_https_local :: "string \<Rightarrow> bool" where
  "is_https_local u = (startsWith u ''https://127.0.0.1'' \<or> startsWith u ''https://localhost'')"

definition rewrite_uri :: "string \<Rightarrow> string \<Rightarrow> string" where
  \<comment> \<open>the two chained \<open>replace\<close> calls, before the scheme is looked at\<close>
  "rewrite_uri emulatorHost u =
     replace_regex (replace_regex u ''https://'' emulatorHost) ''http://'' emulatorHost"

definition ensure_http :: "string \<Rightarrow> string" where
  "ensure_http u = (if is_https_local u then replace_string u ''https://'' ''http://'' else u)"

definition redirect_uri :: "string \<Rightarrow> string \<Rightarrow> string" where
  "redirect_uri emulatorHost u = ensure_http (rewrite_uri emulatorHost u)"

section \<open>The request override: \<open>createCustomAuthRequest\<close>\<close>

text \<open>
  The repository defines \<open>createCustomAuthRequest\<close> twice: in the full override example
  (\<open>override-auth-example/index.ts\<close>), where the request is made inside \<open>try\<close>/\<open>catch\<close>, and in
  the connection test (\<open>override-auth-example/test.ts\<close>), where the same statements run without
  a handler. Both are modelled; they share the uri rewriting and the body of the \<open>try\<close> block.

  The JSON functions and \<open>fetch\<close> belong to the platform and are parameters of the model. A
  thrown exception or a rejected promise is the left injection of a sum. Console output is
  left out: it does not influence control flow.
\<close>

datatype 'j responseBody = Json 'j | Text string

record 'j result =
  statusCode :: nat
  result_body :: "'j responseBody"
  result_headers :: "string \<rightharpoonup> string"

datatype 'j js_error =
    RequestFailed nat "'j result"
      \<comment> \<open>\<open>new Error(`Request failed with status ${response.status}`)\<close> with its \<open>response\<close>\<close>
  | Thrown string
      \<comment> \<open>any other error value, named by its message\<close>

datatype 'j callback_args =
  CallbackArgs (cb_error: "'j js_error option") (cb_body: "'j responseBody option")
    (cb_response: "'j result option")

record ('b, 'j) RequestOptions =
  uri :: "string option"
  req_method :: "string option"
  headers :: "(string \<rightharpoonup> string) option"
  body :: "'b option"
  callback :: "('j callback_args \<Rightarrow> 'j js_error option) option"
    \<comment> \<open>a callback returns normally (\<open>None\<close>) or throws\<close>

record RequestInit =
  fetch_method :: string
  fetch_headers :: "string \<rightharpoonup> string"
  fetch_body :: "string option"

record 'j Response =
  status :: nat
  response_text :: "'j js_error + string"
  response_headers :: "(string \<times> string) list"

record ('b, 'j) platform =
  truthy :: "'b \<Rightarrow> bool"
  JSON_stringify :: "'b \<Rightarrow> 'j js_error + string option"
  JSON_parse :: "string \<Rightarrow> 'j option"
  fetch :: "string option \<Rightarrow> RequestInit \<Rightarrow> 'j js_error + 'j Response"

datatype 'j event = Fetch "string option" RequestInit | Callback "'j callback_args"

fun dispatched :: "'j event list \<Rightarrow> (string option \<times> RequestInit) list" where
  \<comment> \<open>the calls of \<open>fetch\<close>, in order\<close>
  "dispatched [] = []"
| "dispatched (Fetch u opts # evs) = (u, opts) # dispatched evs"
| "dispatched (Callback args # evs) = dispatched evs"

fun invocations :: "'j event list \<Rightarrow> 'j callback_args list" where
  \<comment> \<open>the calls of the completion callback, in order\<close>
  "invocations [] = []"
| "invocations (Fetch u opts # evs) = invocations evs"
| "invocations (Callback args # evs) = args # invocations evs"

datatype 'j promise = Resolved "'j result" | Rejected "'j js_error"

record ('b, 'j) run =
  descriptor :: "('b, 'j) RequestOptions"
  trace :: "'j event list"
  settled :: "'j promise"

definition ok :: "'j Response \<Rightarrow> bool" where
  \<comment> \<open>\<open>response.ok\<close> of the fetch API: a status in the range 200 to 299\<close>
  "ok response = (200 \<le> status response \<and> status response < 300)"

definition fromEntries :: "(string \<times> string) list \<Rightarrow> (string \<rightharpoonup> string)" where
  "fromEntries entries = foldl (\<lambda>m (k, v). m(k \<mapsto> v)) Map.empty entries"

definition redirect :: "string \<Rightarrow> ('b, 'j) RequestOptions \<Rightarrow> ('b, 'j) RequestOptions" where
  \<comment> \<open>\<open>if (reqOpts.uri) { reqOpts.uri = ... }\<close>: an absent or empty uri is left alone\<close>
  "redirect emulatorHost reqOpts =
     (case uri reqOpts of
        None \<Rightarrow> reqOpts
      | Some u \<Rightarrow> if u = [] then reqOpts else reqOpts\<lparr>uri := Some (redirect_uri emulatorHost u)\<rparr>)"

definition method_or_GET :: "('b, 'j) RequestOptions \<Rightarrow> string" where
  "method_or_GET reqOpts =
     (case req_method reqOpts of None \<Rightarrow> ''GET'' | Some m \<Rightarrow> if m = [] then ''GET'' else m)"

definition supplied_headers :: "('b, 'j) RequestOptions \<Rightarrow> (string \<rightharpoonup> string)" where
  \<comment> \<open>\<open>...reqOpts.headers\<close>: spreading \<open>undefined\<close> adds nothing\<close>
  "supplied_headers reqOpts = (case headers reqOpts of None \<Rightarrow> Map.empty | Some h \<Rightarrow> h)"

definition merged_headers :: "('b, 'j) RequestOptions \<Rightarrow> (string \<rightharpoonup> string)" where
  \<comment> \<open>\<open>{ 'Content-Type': 'application/json', ...reqOpts.headers }\<close>\<close>
  "merged_headers reqOpts =
     [''Content-Type'' \<mapsto> ''application/json''] ++ supplied_headers reqOpts"

definition serialized_body ::
  "('b, 'j) platform \<Rightarrow> ('b, 'j) RequestOptions \<Rightarrow> 'j js_error + string option" where
  \<comment> \<open>\<open>if (reqOpts.body) { fetchOptions.body = JSON.stringify(reqOpts.body) }\<close>\<close>
  "serialized_body P reqOpts =
     (case body reqOpts of
        None \<Rightarrow> Inr None
      | Some b \<Rightarrow> if truthy P b then JSON_stringify P b else Inr None)"

definition fetchOptions :: "('b, 'j) RequestOptions \<Rightarrow> string option \<Rightarrow> RequestInit" where
  "fetchOptions reqOpts b =
     \<lparr>fetch_method = method_or_GET reqOpts, fetch_headers = merged_headers reqOpts,
      fetch_body = b\<rparr>"

definition normalized_result :: "('b, 'j) platform \<Rightarrow> 'j Response \<Rightarrow> string \<Rightarrow> 'j result" where
  \<comment> \<open>the inner \<open>try { JSON.parse } catch { raw text }\<close> and the result object\<close>
  "normalized_result P response responseText =
     \<lparr>statusCode = status response,
      result_body = (case JSON_parse P responseText of
                       Some v \<Rightarrow> Json v | None \<Rightarrow> Text responseText),
      result_headers = fromEntries (response_headers response)\<rparr>"

definition completion_args :: "'j Response \<Rightarrow> 'j result \<Rightarrow> 'j callback_args" where
  \<comment> \<open>what the callback receives once a response has arrived\<close>
  "completion_args response res =
     (if ok response then CallbackArgs None (Some (result_body res)) (Some res)
      else CallbackArgs (Some (RequestFailed (status response) res)) None (Some res))"

definition request_steps ::
  "('b, 'j) platform \<Rightarrow> ('b, 'j) RequestOptions \<Rightarrow> 'j event list \<times> ('j js_error + 'j result)"
where
  \<comment> \<open>from \<open>fetchOptions\<close> to \<open>return result\<close>: the events so far, and the result or what was thrown\<close>
  "request_steps P reqOpts =
     (case serialized_body P reqOpts of
        Inl e \<Rightarrow> ([], Inl e)
      | Inr b \<Rightarrow>
          (let sent = [Fetch (uri reqOpts) (fetchOptions reqOpts b)] in
           case fetch P (uri reqOpts) (fetchOptions reqOpts b) of
             Inl e \<Rightarrow> (sent, Inl e)
           | Inr response \<Rightarrow>
               (case response_text response of
                  Inl e \<Rightarrow> (sent, Inl e)
                | Inr responseText \<Rightarrow>
                    (let res = normalized_result P response responseText in
                     case callback reqOpts of
                       None \<Rightarrow> (sent, Inr res)
                     | Some cb \<Rightarrow>
                         (case cb (completion_args response res) of
                            None \<Rightarrow> (sent @ [Callback (completion_args response res)], Inr res)
                          | Some e \<Rightarrow>
                              (sent @ [Callback (completion_args response res)], Inl e))))))"

definition makeAuthenticatedRequest ::
  "('b, 'j) platform \<Rightarrow> string \<Rightarrow> ('b, 'j) RequestOptions \<Rightarrow> ('b, 'j) run" where
  \<comment> \<open>\<open>override-auth-example/index.ts\<close>: the steps run inside \<open>try\<close>; the handler reports the
      error to the callback, if there is one, and throws it again\<close>
  "makeAuthenticatedRequest P emulatorHost reqOpts0 =
     (let reqOpts = redirect emulatorHost reqOpts0 in
      case request_steps P reqOpts of
        (evs, Inr res) \<Rightarrow> \<lparr>descriptor = reqOpts, trace = evs, settled = Resolved res\<rparr>
      | (evs, Inl err) \<Rightarrow>
          (case callback reqOpts of
             None \<Rightarrow> \<lparr>descriptor = reqOpts, trace = evs, settled = Rejected err\<rparr>
           | Some cb \<Rightarrow>
               (case cb (CallbackArgs (Some err) None None) of
                  None \<Rightarrow>
                    \<lparr>descriptor = reqOpts,
                     trace = evs @ [Callback (CallbackArgs (Some err) None None)],
                     settled = Rejected err\<rparr>
                | Some err' \<Rightarrow>
                    \<lparr>descriptor = reqOpts,
                     trace = evs @ [Callback (CallbackArgs (Some err) None None)],
                     settled = Rejected err'\<rparr>)))"

definition makeAuthenticatedRequest_test ::
  "('b, 'j) platform \<Rightarrow> string \<Rightarrow> ('b, 'j) RequestOptions \<Rightarrow> ('b, 'j) run" where
  \<comment> \<open>\<open>override-auth-example/test.ts\<close>: the same steps without a handler\<close>
  "makeAuthenticatedRequest_test P emulatorHost reqOpts0 =
     (let reqOpts = redirect emulatorHost reqOpts0 in
      case request_steps P reqOpts of
        (evs, Inr res) \<Rightarrow> \<lparr>descriptor = reqOpts, trace = evs, settled = Resolved res\<rparr>
      | (evs, Inl err) \<Rightarrow> \<lparr>descriptor = reqOpts, trace = evs, settled = Rejected err\<rparr>)"

section \<open>The example scripts\<close>

text \<open>
  The repository holds six scripts: \<open>env-variable-example/index.ts\<close> and \<open>test.ts\<close>,
  \<open>override-auth-example/simple-index.ts\<close>, \<open>index.ts\<close> and \<open>test.ts\<close>, and a minimal test
  script that tries two ways of connecting. Each one prepares the process environment and
  then awaits a fixed sequence of client calls. The client library is not part of the
  repository: what each of its calls returns is a parameter, and the client object is taken
  as constructed.
\<close>

subsection \<open>The process environment before the first client call\<close>

type_synonym process_env = "string \<rightharpoonup> string"

definition dotenv_config :: "process_env \<Rightarrow> process_env \<Rightarrow> process_env" where
  \<comment> \<open>\<open>dotenv.config()\<close>: the entries of the \<open>.env\<close> file are added; a variable that is already
      set keeps its value\<close>
  "dotenv_config dotenv_file env = dotenv_file ++ env"

definition clear_credentials :: "process_env \<Rightarrow> process_env" where
  \<comment> \<open>the three \<open>delete process.env.X\<close> statements\<close>
  "clear_credentials env =
     env(''GOOGLE_APPLICATION_CREDENTIALS'' := None, ''GOOGLE_CLOUD_PROJECT'' := None,
         ''GCLOUD_PROJECT'' := None)"

definition or_default :: "string option \<Rightarrow> string \<Rightarrow> string" where
  \<comment> \<open>\<open>value || fallback\<close>: an unset or empty variable gives the fallback\<close>
  "or_default v fallback = (case v of None \<Rightarrow> fallback | Some x \<Rightarrow> if x = [] then fallback else x)"

definition env_index_env :: "process_env \<Rightarrow> process_env \<Rightarrow> process_env" where
  \<comment> \<open>\<open>env-variable-example/index.ts\<close>, module top level\<close>
  "env_index_env dotenv_file env0 =
     (let env = clear_credentials (dotenv_config dotenv_file env0)
      in env(''BIGQUERY_EMULATOR_HOST'' \<mapsto>
               or_default (env ''BIGQUERY_EMULATOR_HOST'') ''http://127.0.0.1:9050''))"

definition env_test_env :: "process_env \<Rightarrow> process_env \<Rightarrow> process_env" where
  \<comment> \<open>\<open>env-variable-example/test.ts\<close>, module top level\<close>
  "env_test_env dotenv_file env0 =
     (let env = clear_credentials (dotenv_config dotenv_file env0)
      in env(''BIGQUERY_EMULATOR_HOST'' \<mapsto>
               or_default (env ''BIGQUERY_EMULATOR_HOST'') ''http://127.0.0.1:9050''))"

definition simple_index_env :: "process_env \<Rightarrow> process_env \<Rightarrow> process_env" where
  \<comment> \<open>\<open>override-auth-example/simple-index.ts\<close>, module top level\<close>
  "simple_index_env dotenv_file env0 =
     (let env = clear_credentials (dotenv_config dotenv_file env0);
          EMULATOR_HOST = or_default (env ''EMULATOR_HOST'') ''http://127.0.0.1:9050''
      in env(''BIGQUERY_EMULATOR_HOST'' \<mapsto> EMULATOR_HOST))"

definition override_index_env :: "process_env \<Rightarrow> process_env \<Rightarrow> process_env" where
  \<comment> \<open>\<open>override-auth-example/index.ts\<close>, module top level: only \<open>dotenv.config()\<close>\<close>
  "override_index_env dotenv_file env0 = dotenv_config dotenv_file env0"

definition override_test_env :: "process_env \<Rightarrow> process_env \<Rightarrow> process_env" where
  \<comment> \<open>\<open>override-auth-example/test.ts\<close>, module top level: only \<open>dotenv.config()\<close>\<close>
  "override_test_env dotenv_file env0 = dotenv_config dotenv_file env0"

definition minimal_test_env :: "process_env \<Rightarrow> process_env" where
  \<comment> \<open>the minimal test script, at the start of \<open>testEmulator\<close>\<close>
  "minimal_test_env env0 =
     (clear_credentials env0)(''BIGQUERY_EMULATOR_HOST'' \<mapsto> ''http://localhost:9050'')"

subsection \<open>Client calls and the recovery of an existing resource\<close>

record ApiError =
  code :: "int option"
  message :: "string option"

datatype script_error =
    SdkError ApiError      \<comment> \<open>a client call rejected\<close>
  | TypeError              \<comment> \<open>a property of \<open>undefined\<close> or \<open>null\<close> was read, or a non-function called\<close>
  | NoResults              \<comment> \<open>\<open>new Error('No results returned from test query')\<close>\<close>

datatype 'd query_text =
    EnvQuery 'd            \<comment> \<open>\<open>SELECT id, name, created_at FROM `dataset.test_table` ORDER BY id\<close>\<close>
  | AggregationQuery 'd    \<comment> \<open>\<open>SELECT COUNT(*) as total, MAX(id) as max_id FROM `dataset.test_table`\<close>\<close>
  | SimpleQuery 'd         \<comment> \<open>\<open>SELECT user_id, username, email, is_active FROM `dataset.simple_users` \<dots>\<close>\<close>
  | OverrideQuery 'd       \<comment> \<open>\<open>SELECT user_id, username, email, age, is_active FROM `dataset.users_table` \<dots>\<close>\<close>
  | StatsQuery 'd          \<comment> \<open>\<open>SELECT COUNT(*) as total_users, \<dots>, AVG(age) as avg_age, \<dots>\<close>\<close>
  | TestValueQuery         \<comment> \<open>\<open>SELECT 1 AS test_value, CURRENT_TIMESTAMP() AS current_time\<close>\<close>
  | HelloQuery             \<comment> \<open>\<open>SELECT "Hello from override!" AS message, 42 AS answer\<close>\<close>
  | Query1                 \<comment> \<open>\<open>SELECT 1 AS num, "hello" AS msg\<close>\<close>
  | Query2                 \<comment> \<open>\<open>SELECT 2 AS num, "world" AS msg\<close>\<close>

datatype js_value =
    Undefined | Null | NaN | Num real | Str string | Boolean bool
  | Obj "(string \<times> js_value) list"
  \<comment> \<open>what a result row and its fields can be: data only, no functions\<close>

record ('d, 't, 'job) bigquery =
  createDataset :: "string \<Rightarrow> ApiError + 'd"
  dataset :: "string \<Rightarrow> 'd"
  createTable :: "'d \<Rightarrow> string \<Rightarrow> ApiError + 't"
  table :: "'d \<Rightarrow> string \<Rightarrow> 't"
  insert_rows :: "'t \<Rightarrow> ApiError + unit"
  createQueryJob :: "'d query_text \<Rightarrow> ApiError + 'job"
  getQueryResults :: "'job \<Rightarrow> ApiError + js_value list"

definition catch_409 :: "ApiError + 'a \<Rightarrow> 'a \<Rightarrow> ApiError + 'a" where
  \<comment> \<open>\<open>.catch((err) => { if (err.code === 409) { return [existing]; } throw err; })\<close>\<close>
  "catch_409 created existing =
     (case created of
        Inr x \<Rightarrow> Inr x
      | Inl err \<Rightarrow> if code err = Some 409 then Inr existing else Inl err)"

definition mentions_already :: "ApiError \<Rightarrow> bool" where
  \<comment> \<open>\<open>err.message?.includes('already')\<close>\<close>
  "mentions_already err =
     (case message err of None \<Rightarrow> False | Some m \<Rightarrow> includes_str m ''already'')"

definition catch_409_or_already :: "ApiError + 'a \<Rightarrow> 'a \<Rightarrow> ApiError + 'a" where
  \<comment> \<open>\<open>catch (err) { if (err.code === 409 || err.message?.includes('already')) ... else throw err }\<close>\<close>
  "catch_409_or_already created existing =
     (case created of
        Inr x \<Rightarrow> Inr x
      | Inl err \<Rightarrow>
          if code err = Some 409 \<or> mentions_already err then Inr existing else Inl err)"

definition await :: "ApiError + 'a \<Rightarrow> ('a \<Rightarrow> script_error + 'b) \<Rightarrow> script_error + 'b" where
  \<comment> \<open>\<open>await\<close> inside \<open>try\<close>: a rejection leaves the sequence\<close>
  "await p k = (case p of Inl err \<Rightarrow> Inl (SdkError err) | Inr x \<Rightarrow> k x)"

definition exit_code :: "script_error + 'a \<Rightarrow> nat" where
  \<comment> \<open>the outer \<open>catch\<close> calls \<open>process.exit(1)\<close>; a script that runs to its end exits with 0\<close>
  "exit_code r = (case r of Inl _ \<Rightarrow> 1 | Inr _ \<Rightarrow> 0)"

subsection \<open>Reading result rows\<close>

definition defined :: "js_value \<Rightarrow> bool" where
  "defined v = (v \<noteq> Undefined \<and> v \<noteq> Null)"

fun field :: "js_value \<Rightarrow> string \<Rightarrow> js_value" where
  \<comment> \<open>the value of \<open>v.name\<close> when \<open>v\<close> is neither \<open>undefined\<close> nor \<open>null\<close>: a missing field, and any
      of the fields read here on a number, string or boolean, is \<open>undefined\<close>\<close>
  "field (Obj props) name = (case map_of props name of None \<Rightarrow> Undefined | Some v \<Rightarrow> v)"
| "field v name = Undefined"

definition read_field :: "js_value \<Rightarrow> string \<Rightarrow> script_error + js_value" where
  \<comment> \<open>\<open>v.name\<close>: reading a property of \<open>undefined\<close> or \<open>null\<close> throws a \<open>TypeError\<close>\<close>
  "read_field v name = (if defined v then Inr (field v name) else Inl TypeError)"

definition index0 :: "js_value list \<Rightarrow> js_value" where
  \<comment> \<open>\<open>rows[0]\<close>: \<open>undefined\<close> for an empty array\<close>
  "index0 rows = (case rows of [] \<Rightarrow> Undefined | r # _ \<Rightarrow> r)"

fun truthy_value :: "js_value \<Rightarrow> bool" where
  "truthy_value Undefined = False"
| "truthy_value Null = False"
| "truthy_value NaN = False"
| "truthy_value (Num x) = (x \<noteq> 0)"
| "truthy_value (Str s) = (s \<noteq> [])"
| "truthy_value (Boolean b) = b"
| "truthy_value (Obj props) = True"

fun toFixed :: "js_value \<Rightarrow> script_error + unit" where
  \<comment> \<open>\<open>v.toFixed(1)\<close> for a truthy \<open>v\<close>: only a number has the method\<close>
  "toFixed (Num x) = Inr ()"
| "toFixed v = Inl TypeError"

definition and_then :: "script_error + 'a \<Rightarrow> ('a \<Rightarrow> script_error + 'b) \<Rightarrow> script_error + 'b" where
  \<comment> \<open>one statement after another inside \<open>try\<close>\<close>
  "and_then r k = (case r of Inl e \<Rightarrow> Inl e | Inr x \<Rightarrow> k x)"

fun reads :: "js_value \<Rightarrow> string list \<Rightarrow> script_error + unit" where
  \<comment> \<open>\<open>v.a\<close>, \<open>v.b\<close>, \<dots> read one after the other, for printing\<close>
  "reads v [] = Inr ()"
| "reads v (name # names) = and_then (read_field v name) (\<lambda>_. reads v names)"

fun forEach :: "('a \<Rightarrow> script_error + unit) \<Rightarrow> 'a list \<Rightarrow> script_error + unit" where
  \<comment> \<open>\<open>rows.forEach(f)\<close>: an exception in \<open>f\<close> ends the loop\<close>
  "forEach f [] = Inr ()"
| "forEach f (x # xs) = (case f x of Inl e \<Rightarrow> Inl e | Inr _ \<Rightarrow> forEach f xs)"

definition print_env_row :: "js_value \<Rightarrow> script_error + unit" where
  \<comment> \<open>\<open>`  ID: ${row.id}, Name: ${row.name}, Created: ${row.created_at.value}`\<close>\<close>
  "print_env_row row =
     and_then (reads row [''id'', ''name'']) (\<lambda>_.
     and_then (read_field row ''created_at'') (\<lambda>created_at.
     reads created_at [''value'']))"

definition print_simple_row :: "js_value \<Rightarrow> script_error + unit" where
  \<comment> \<open>\<open>`  ID: ${row.user_id}, Username: ${row.username}, Email: ${row.email || 'N/A'}`\<close>\<close>
  "print_simple_row row = reads row [''user_id'', ''username'', ''email'']"

definition print_override_row :: "js_value \<Rightarrow> script_error + unit" where
  \<comment> \<open>as in \<open>simple-index.ts\<close>, and \<open>Age: ${row.age || 'N/A'}\<close>\<close>
  "print_override_row row = reads row [''user_id'', ''username'', ''email'', ''age'']"

definition print_stats :: "js_value \<Rightarrow> script_error + unit" where
  \<comment> \<open>the four lines that print \<open>stats\<close>; the third is
      \<open>stats.avg_age ? stats.avg_age.toFixed(1) : 'N/A'\<close>\<close>
  "print_stats stats =
     and_then (reads stats [''total_users'', ''unique_emails'']) (\<lambda>_.
     and_then (read_field stats ''avg_age'') (\<lambda>avg_age.
     and_then (if truthy_value avg_age then toFixed avg_age else Inr ()) (\<lambda>_.
     reads stats [''active_users''])))"

subsection \<open>The sequences\<close>

definition main_env_try :: "('d, 't, 'job) bigquery \<Rightarrow> script_error + unit" where
  \<comment> \<open>\<open>env-variable-example/index.ts\<close>, the \<open>try\<close> block of \<open>main\<close>\<close>
  "main_env_try bq =
     await (catch_409 (createDataset bq ''test_dataset'') (dataset bq ''test_dataset''))
       (\<lambda>ds.
     await (catch_409 (createTable bq ds ''test_table'') (table bq ds ''test_table''))
       (\<lambda>tbl.
     await (insert_rows bq tbl) (\<lambda>_.
     await (createQueryJob bq (EnvQuery ds)) (\<lambda>job.
     await (getQueryResults bq job) (\<lambda>queryRows.
     and_then (forEach print_env_row queryRows) (\<lambda>_.
     await (createQueryJob bq (AggregationQuery ds)) (\<lambda>aggJob.
     await (getQueryResults bq aggJob) (\<lambda>aggRows.
     reads (index0 aggRows) [''total'', ''max_id'']))))))))"

definition main_env :: "('d, 't, 'job) bigquery \<Rightarrow> nat" where
  "main_env bq = exit_code (main_env_try bq)"

definition main_simple_try :: "('d, 't, 'job) bigquery \<Rightarrow> script_error + unit" where
  \<comment> \<open>\<open>override-auth-example/simple-index.ts\<close>, the \<open>try\<close> block of \<open>main\<close>\<close>
  "main_simple_try bq =
     await (catch_409_or_already (createDataset bq ''override_test_dataset'')
              (dataset bq ''override_test_dataset''))
       (\<lambda>ds.
     await (catch_409_or_already (createTable bq ds ''simple_users'')
              (table bq ds ''simple_users''))
       (\<lambda>tbl.
     await (insert_rows bq tbl) (\<lambda>_.
     await (createQueryJob bq (SimpleQuery ds)) (\<lambda>job.
     await (getQueryResults bq job) (\<lambda>queryRows.
     forEach print_simple_row queryRows)))))"

definition main_simple :: "('d, 't, 'job) bigquery \<Rightarrow> nat" where
  "main_simple bq = exit_code (main_simple_try bq)"

definition main_override_try :: "('d, 't, 'job) bigquery \<Rightarrow> script_error + unit" where
  \<comment> \<open>\<open>override-auth-example/index.ts\<close>, the \<open>try\<close> block of \<open>main\<close>\<close>
  "main_override_try bq =
     await (catch_409 (createDataset bq ''override_test_dataset'')
              (dataset bq ''override_test_dataset''))
       (\<lambda>ds.
     await (catch_409 (createTable bq ds ''users_table'') (table bq ds ''users_table''))
       (\<lambda>tbl.
     await (insert_rows bq tbl) (\<lambda>_.
     await (createQueryJob bq (OverrideQuery ds)) (\<lambda>job.
     await (getQueryResults bq job) (\<lambda>queryRows.
     and_then (forEach print_override_row queryRows) (\<lambda>_.
     await (createQueryJob bq (StatsQuery ds)) (\<lambda>statsJob.
     await (getQueryResults bq statsJob) (\<lambda>statsRows.
     print_stats (index0 statsRows)))))))))"

definition main_override :: "('d, 't, 'job) bigquery \<Rightarrow> nat" where
  "main_override bq = exit_code (main_override_try bq)"

definition testConnection_env_try :: "('d, 't, 'job) bigquery \<Rightarrow> script_error + unit" where
  \<comment> \<open>\<open>env-variable-example/test.ts\<close>, the \<open>try\<close> block of \<open>testConnection\<close>: with a row it
      prints \<open>rows[0].test_value\<close> and \<open>rows[0].current_time.value\<close>\<close>
  "testConnection_env_try bq =
     await (createQueryJob bq TestValueQuery) (\<lambda>job.
     await (getQueryResults bq job) (\<lambda>rows.
     if rows \<noteq> [] then
       and_then (reads (index0 rows) [''test_value'']) (\<lambda>_.
       and_then (read_field (index0 rows) ''current_time'') (\<lambda>current_time.
       reads current_time [''value'']))
     else Inl NoResults))"

definition testConnection_env :: "('d, 't, 'job) bigquery \<Rightarrow> nat" where
  "testConnection_env bq = exit_code (testConnection_env_try bq)"

definition testConnection_override_try :: "('d, 't, 'job) bigquery \<Rightarrow> script_error + unit" where
  \<comment> \<open>\<open>override-auth-example/test.ts\<close>, the \<open>try\<close> block of \<open>testConnection\<close>: with a row it
      prints \<open>rows[0].message\<close> and \<open>rows[0].answer\<close>\<close>
  "testConnection_override_try bq =
     await (createQueryJob bq HelloQuery) (\<lambda>job.
     await (getQueryResults bq job) (\<lambda>rows.
     if rows \<noteq> [] then reads (index0 rows) [''message'', ''answer''] else Inl NoResults))"

definition testConnection_override :: "('d, 't, 'job) bigquery \<Rightarrow> nat" where
  "testConnection_override bq = exit_code (testConnection_override_try bq)"

definition attempt ::
  "('d, 't, 'job) bigquery \<Rightarrow> 'd query_text \<Rightarrow> script_error + js_value list" where
  \<comment> \<open>one inner \<open>try\<close> block of the minimal test script; the rows are printed whole\<close>
  "attempt bq q = await (createQueryJob bq q) (\<lambda>job. await (getQueryResults bq job) Inr)"

definition testEmulator ::
  "('d, 't, 'job) bigquery \<Rightarrow> ('d, 't, 'job) bigquery \<Rightarrow> bool list \<times> nat" where
  \<comment> \<open>the minimal test script: each attempt is caught and reported on its own (whether it
      succeeded), the second runs whatever the first did, and nothing calls \<open>process.exit\<close>\<close>
  "testEmulator bq1 bq2 = ([\<not> isl (attempt bq1 Query1), \<not> isl (attempt bq2 Query2)], 0)"

section \<open>Sample inputs\<close>

text \<open>
  A small platform and a few descriptors, errors and clients on which the properties below are
  evaluated. Request bodies and parsed JSON values are both strings here; the sample
  \<open>JSON.parse\<close> accepts the text \<open>{}\<close> only.
\<close>

definition sample_platform ::
  "(string js_error + string Response) \<Rightarrow> (string, string) platform" where
  "sample_platform reply =
     \<lparr>truthy = (\<lambda>b. b \<noteq> []), JSON_stringify = (\<lambda>b. Inr (Some b)),
      JSON_parse = (\<lambda>s. if s = ''{}'' then Some s else None),
      fetch = (\<lambda>u opts. reply)\<rparr>"

definition reply_with :: "nat \<Rightarrow> string \<Rightarrow> string js_error + string Response" where
  "reply_with st txt = Inr \<lparr>status = st, response_text = Inr txt, response_headers = []\<rparr>"

definition connection_refused :: "string js_error + string Response" where
  "connection_refused = Inl (Thrown ''connect ECONNREFUSED 127.0.0.1:9050'')"

definition request_for ::
  "string \<Rightarrow> (string callback_args \<Rightarrow> string js_error option) option
     \<Rightarrow> (string, string) RequestOptions" where
  "request_for u cb =
     \<lparr>uri = Some u, req_method = Some ''POST'', headers = None, body = Some ''{}'', callback = cb\<rparr>"

definition quiet_callback :: "string callback_args \<Rightarrow> string js_error option" where
  \<comment> \<open>a callback that returns normally\<close>
  "quiet_callback args = None"

definition throwing_callback :: "string callback_args \<Rightarrow> string js_error option" where
  \<comment> \<open>a callback that throws whatever it is handed\<close>
  "throwing_callback args = Some (Thrown ''callback failed'')"

definition rethrowing_callback :: "string callback_args \<Rightarrow> string js_error option" where
  \<comment> \<open>\<open>(err) => { if (err) throw err; }\<close>\<close>
  "rethrowing_callback args = cb_error args"

definition jobs_uri :: string where
  "jobs_uri = ''https://bigquery.googleapis.com/bigquery/v2/projects/test-project/jobs''"

definition emulator_url :: string where
  \<comment> \<open>the default of \<open>EMULATOR_HOST\<close>\<close>
  "emulator_url = ''http://127.0.0.1:9050''"

definition sample_row :: js_value where
  \<comment> \<open>a row with every field the scripts read\<close>
  "sample_row =
     Obj [(''id'', Num 1), (''name'', Str ''Alice''),
          (''created_at'', Obj [(''value'', Str ''2025-08-10T07:54:29.920855000Z'')]),
          (''test_value'', Num 1),
          (''current_time'', Obj [(''value'', Str ''2025-08-10T07:54:29.920855000Z'')]),
          (''message'', Str ''Hello from override!''), (''answer'', Num 42),
          (''user_id'', Num 1), (''username'', Str ''alice_wonder''),
          (''email'', Str ''alice@example.com''), (''age'', Num 28),
          (''total'', Num 3), (''max_id'', Num 3),
          (''total_users'', Num 3), (''unique_emails'', Num 2), (''avg_age'', Num 31.5),
          (''active_users'', Num 2)]"

definition sample_client ::
  "(string \<Rightarrow> ApiError + string) \<Rightarrow> (string query_text \<Rightarrow> ApiError + nat)
     \<Rightarrow> (string, string, nat) bigquery" where
  \<comment> \<open>a client whose dataset creation and query submission are given; everything else succeeds\<close>
  "sample_client create submit =
     \<lparr>createDataset = create, dataset = (\<lambda>name. name),
      createTable = (\<lambda>ds name. Inr (ds @ ''.'' @ name)), table = (\<lambda>ds name. ds @ ''.'' @ name),
      insert_rows = (\<lambda>t. Inr ()), createQueryJob = submit,
      getQueryResults = (\<lambda>job. Inr [sample_row])\<rparr>"

definition rows_client :: "js_value list \<Rightarrow> (string, string, nat) bigquery" where
  \<comment> \<open>a client on which everything succeeds and every query returns the given rows\<close>
  "rows_client rows =
     \<lparr>createDataset = (\<lambda>name. Inr name), dataset = (\<lambda>name. name),
      createTable = (\<lambda>ds name. Inr (ds @ ''.'' @ name)), table = (\<lambda>ds name. ds @ ''.'' @ name),
      insert_rows = (\<lambda>t. Inr ()), createQueryJob = (\<lambda>q. Inr 0),
      getQueryResults = (\<lambda>job. Inr rows)\<rparr>"

definition already_exists :: ApiError where
  "already_exists = \<lparr>code = Some 409, message = Some ''Already Exists: Dataset''\<rparr>"

definition unavailable :: ApiError where
  "unavailable = \<lparr>code = None, message = Some ''connect ECONNREFUSED 127.0.0.1:9050''\<rparr>"

definition internal_already :: ApiError where
  \<comment> \<open>not a conflict, but its message contains the word the simplified script looks for\<close>
  "internal_already = \<lparr>code = Some 500, message = Some ''job already cancelled''\<rparr>"

section \<open>Properties of the uri rewriting\<close>

lemma GetSubstitution_literal:
  "\<not> has_dollar_pattern replacement \<Longrightarrow> GetSubstitution m p q replacement = replacement"
  by (induction m p q replacement rule: GetSubstitution.induct) auto

lemma startsWith_append [simp]: "startsWith (p @ s) p"
  by (simp add: startsWith_def)

lemma startsWith_refl [simp]: "startsWith p p"
  by (simp add: startsWith_def)

lemma startsWith_shorter: "startsWith u (p @ q) \<Longrightarrow> startsWith u p"
proof -
  assume "startsWith u (p @ q)"
  then have "take (length (p @ q)) u = p @ q" by (simp add: startsWith_def)
  then have "take (length p) (take (length (p @ q)) u) = take (length p) (p @ q)" by simp
  then show ?thesis by (simp add: startsWith_def min_def)
qed

lemma startsWith_short: "length s < length p \<Longrightarrow> \<not> startsWith s p"
  by (auto simp: startsWith_def)

lemma startsWith_iff: "startsWith s p \<longleftrightarrow> (\<exists>b. s = p @ b)"
proof
  assume "startsWith s p"
  then have "s = p @ drop (length p) s"
    by (metis append_take_drop_id startsWith_def)
  then show "\<exists>b. s = p @ b" ..
next
  assume "\<exists>b. s = p @ b"
  then show "startsWith s p" by auto
qed

lemma includes_str_iff: "includes_str s p \<longleftrightarrow> (\<exists>a b. s = a @ p @ b)"
proof (induction s)
  case Nil
  then show ?case by auto
next
  case (Cons c cs)
  show ?case
  proof
    assume "includes_str (c # cs) p"
    then consider "startsWith (c # cs) p" | "includes_str cs p" by auto
    then show "\<exists>a b. c # cs = a @ p @ b"
    proof cases
      case 1
      then obtain b where "c # cs = [] @ p @ b" by (auto simp: startsWith_iff)
      then show ?thesis by blast
    next
      case 2
      then obtain a b where "cs = a @ p @ b" using Cons.IH by blast
      then have "c # cs = (c # a) @ p @ b" by simp
      then show ?thesis by blast
    qed
  next
    assume "\<exists>a b. c # cs = a @ p @ b"
    then obtain a b where ab: "c # cs = a @ p @ b" by blast
    show "includes_str (c # cs) p"
    proof (cases a)
      case Nil
      then have "startsWith (c # cs) p" using ab by (auto simp: startsWith_iff)
      then show ?thesis by simp
    next
      case (Cons x xs)
      then have "cs = xs @ p @ b" using ab by simp
      then have "includes_str cs p" using Cons.IH by blast
      then show ?thesis by simp
    qed
  qed
qed

lemma length_googleapis: "length googleapis = 15"
  by (simp add: googleapis_def)

text \<open>
  No proper suffix of \<open>.googleapis.com\<close> starts a second occurrence of it.
\<close>

lemma no_overlap:
  assumes "0 < j" and "j < 15"
  shows "\<not> startsWith (drop j googleapis @ r) googleapis"
proof -
  from assms have "j = 1 \<or> j = 2 \<or> j = 3 \<or> j = 4 \<or> j = 5 \<or> j = 6 \<or> j = 7 \<or> j = 8
      \<or> j = 9 \<or> j = 10 \<or> j = 11 \<or> j = 12 \<or> j = 13 \<or> j = 14"
    by arith
  then show ?thesis
    by (elim disjE) (simp_all add: googleapis_def startsWith_def)
qed

lemma no_later_match:
  assumes "0 < j" and "\<not> includes_str r googleapis"
  shows "\<not> startsWith (drop j (googleapis @ r)) googleapis"
proof (cases "j < 15")
  case True
  then have "drop j (googleapis @ r) = drop j googleapis @ r"
    by (simp add: length_googleapis)
  then show ?thesis using no_overlap [OF assms(1) True] by simp
next
  case False
  then have d: "drop j (googleapis @ r) = drop (j - 15) r"
    by (simp add: length_googleapis)
  show ?thesis
  proof
    assume "startsWith (drop j (googleapis @ r)) googleapis"
    then obtain b where "drop (j - 15) r = googleapis @ b"
      unfolding d startsWith_iff by blast
    then have "r = take (j - 15) r @ googleapis @ b"
      by (metis append_take_drop_id)
    then have "includes_str r googleapis" unfolding includes_str_iff by blast
    with assms(2) show False by simp
  qed
qed

lemma backtrack_last:
  assumes "host \<noteq> []" and "\<not> includes_str r googleapis"
  shows "backtrack (host @ googleapis @ r) (length host + m) = Some (length host)"
proof (induction m)
  case 0
  from assms(1) obtain k where k: "length host = Suc k" by (cases host) auto
  have "startsWith (drop (length host) (host @ googleapis @ r)) googleapis" by simp
  then show ?case using k by simp
next
  case (Suc m)
  have "drop (Suc (length host + m)) (host @ googleapis @ r) = drop (Suc m) (googleapis @ r)"
    by simp
  then have "\<not> startsWith (drop (Suc (length host + m)) (host @ googleapis @ r)) googleapis"
    using no_later_match [OF _ assms(2), of "Suc m"] by simp
  with Suc show ?case by simp
qed

lemma run_of_host:
  assumes "CHR ''/'' \<notin> set host"
  shows "takeWhile (\<lambda>c. c \<noteq> CHR ''/'') (host @ googleapis @ rest)
         = host @ googleapis @ takeWhile (\<lambda>c. c \<noteq> CHR ''/'') rest"
proof -
  have g: "\<forall>c \<in> set (host @ googleapis). c \<noteq> CHR ''/''"
    using assms(1) by (auto simp: googleapis_def)
  have "takeWhile (\<lambda>c. c \<noteq> CHR ''/'') ((host @ googleapis) @ rest)
        = (host @ googleapis) @ takeWhile (\<lambda>c. c \<noteq> CHR ''/'') rest"
    using g by (intro takeWhile_append2) auto
  then show ?thesis by simp
qed

lemma match_here_host:
  assumes "host \<noteq> []" and "CHR ''/'' \<notin> set host"
    and "\<not> includes_str (takeWhile (\<lambda>c. c \<noteq> CHR ''/'') rest) googleapis"
  shows "match_here lit (lit @ host @ googleapis @ rest)
         = Some (length (lit @ host @ googleapis))"
proof -
  let ?r = "takeWhile (\<lambda>c. c \<noteq> CHR ''/'') rest"
  have "backtrack (host @ googleapis @ ?r) (length host + (length googleapis + length ?r))
        = Some (length host)"
    using assms(1,3) by (rule backtrack_last)
  then have "backtrack (host @ googleapis @ ?r) (length (host @ googleapis @ ?r))
        = Some (length host)"
    by (simp add: add.assoc)
  then show ?thesis
    using run_of_host [OF assms(2)] by (simp add: match_here_def)
qed

lemma regex_exec_head:
  "match_here lit s = Some n \<Longrightarrow> regex_exec lit s = Some (0, n)"
  by (cases s) auto

lemma replace_regex_host:
  assumes "host \<noteq> []" and "CHR ''/'' \<notin> set host"
    and "\<not> includes_str (takeWhile (\<lambda>c. c \<noteq> CHR ''/'') rest) googleapis"
    and "\<not> has_dollar_pattern emulatorHost"
  shows "replace_regex (lit @ host @ googleapis @ rest) lit emulatorHost = emulatorHost @ rest"
proof -
  have "regex_exec lit (lit @ host @ googleapis @ rest) = Some (0, length (lit @ host @ googleapis))"
    by (rule regex_exec_head) (rule match_here_host [OF assms(1-3)])
  then show ?thesis
    by (simp add: replace_regex_def splice_def GetSubstitution_literal [OF assms(4)])
qed

lemma replace_regex_none: "regex_exec lit s = None \<Longrightarrow> replace_regex s lit r = s"
  by (simp add: replace_regex_def)

lemma is_https_local_https: "is_https_local u \<Longrightarrow> startsWith u ''https://''"
proof -
  assume "is_https_local u"
  then consider "startsWith u (''https://'' @ ''127.0.0.1'')"
    | "startsWith u (''https://'' @ ''localhost'')"
    by (auto simp: is_https_local_def)
  then show ?thesis by cases (rule startsWith_shorter, assumption)+
qed

lemma indexOf_head: "startsWith s p \<Longrightarrow> indexOf s p = Some 0"
  by (cases s) (auto simp: startsWith_def)

lemma ensure_http_local:
  assumes "is_https_local u"
  shows "ensure_http u = ''http://'' @ drop (length ''https://'') u"
proof -
  have "indexOf u ''https://'' = Some 0"
    using is_https_local_https [OF assms] by (rule indexOf_head)
  then show ?thesis using assms
    by (simp add: ensure_http_def replace_string_def splice_def)
qed

lemma ensure_http_other: "\<not> is_https_local u \<Longrightarrow> ensure_http u = u"
  by (simp add: ensure_http_def)

lemma not_https_http: "\<not> startsWith (''http://'' @ s) ''https://''"
  by (simp add: startsWith_def)

text \<open>
  Whatever the uri, what \<open>ensure_http\<close> returns does not start with \<open>https://127.0.0.1\<close> or
  \<open>https://localhost\<close>.
\<close>

lemma ensure_http_never_local: "\<not> is_https_local (ensure_http u)"
proof (cases "is_https_local u")
  case True
  have "\<not> startsWith (''http://'' @ drop (length ''https://'') u) ''https://''"
    by (rule not_https_http)
  then have "\<not> is_https_local (''http://'' @ drop (length ''https://'') u)"
    using is_https_local_https by blast
  then show ?thesis using True by (simp add: ensure_http_local)
next
  case False
  then show ?thesis by (simp add: ensure_http_other)
qed

lemma descriptor_index [simp]:
  "descriptor (makeAuthenticatedRequest P emulatorHost reqOpts) = redirect emulatorHost reqOpts"
  by (simp add: makeAuthenticatedRequest_def Let_def split: prod.splits sum.splits option.splits)

lemma descriptor_test [simp]:
  "descriptor (makeAuthenticatedRequest_test P emulatorHost reqOpts) = redirect emulatorHost reqOpts"
  by (simp add: makeAuthenticatedRequest_test_def Let_def split: prod.splits sum.splits)

lemma uri_redirect:
  "uri reqOpts = Some u \<Longrightarrow> u \<noteq> [] \<Longrightarrow>
   uri (redirect emulatorHost reqOpts) = Some (redirect_uri emulatorHost u)"
  by (simp add: redirect_def)

lemma rewrite_uri_host:
  assumes "host \<noteq> []" and "CHR ''/'' \<notin> set host"
    and "\<not> includes_str (takeWhile (\<lambda>c. c \<noteq> CHR ''/'') rest) googleapis"
    and "\<not> has_dollar_pattern emulatorHost"
    and "lit = ''https://'' \<and> regex_exec ''http://'' (emulatorHost @ rest) = None
         \<or> lit = ''http://'' \<and> regex_exec ''https://'' (lit @ host @ googleapis @ rest) = None"
  shows "rewrite_uri emulatorHost (lit @ host @ googleapis @ rest) = emulatorHost @ rest"
  using assms(5)
proof
  assume "lit = ''https://'' \<and> regex_exec ''http://'' (emulatorHost @ rest) = None"
  then have l: "lit = ''https://''"
    and n: "regex_exec ''http://'' (emulatorHost @ rest) = None"
    by blast+
  have 1: "replace_regex (lit @ host @ googleapis @ rest) ''https://'' emulatorHost
           = emulatorHost @ rest"
    unfolding l by (rule replace_regex_host [OF assms(1-4)])
  have 2: "replace_regex (emulatorHost @ rest) ''http://'' emulatorHost = emulatorHost @ rest"
    using n by (rule replace_regex_none)
  show ?thesis by (simp only: rewrite_uri_def 1 2)
next
  assume "lit = ''http://'' \<and> regex_exec ''https://'' (lit @ host @ googleapis @ rest) = None"
  then have l: "lit = ''http://''"
    and n: "regex_exec ''https://'' (lit @ host @ googleapis @ rest) = None"
    by blast+
  have 1: "replace_regex (lit @ host @ googleapis @ rest) ''https://'' emulatorHost
           = lit @ host @ googleapis @ rest"
    using n by (rule replace_regex_none)
  have 2: "replace_regex (lit @ host @ googleapis @ rest) ''http://'' emulatorHost
           = emulatorHost @ rest"
    unfolding l by (rule replace_regex_host [OF assms(1-4)])
  show ?thesis by (simp only: rewrite_uri_def 1 2)
qed

text \<open>
  Claim C1, amended. Take a uri that consists of \<open>https://\<close> or \<open>http://\<close>, a non-empty host part
  without a slash, \<open>.googleapis.com\<close>, and a rest (port, path, query). Suppose that
  \<open>.googleapis.com\<close> does not occur in the rest before its first slash, so that the match ends
  where the rest begins; that the emulator base URL contains none of the replacement patterns
  \<open>$$\<close>, \<open>$&\<close>, \<open>$`\<close>, \<open>$'\<close>; and that the regular expression of the other scheme has no match
  in the text it is applied to (for an \<open>https\<close> uri, the \<open>http\<close> expression in the emulator
  base URL followed by the rest; for an \<open>http\<close> uri, the \<open>https\<close> expression in the uri). Then both
  request functions leave in the descriptor the emulator base URL followed by the unchanged
  rest, after the scheme correction of \<open>ensure_http\<close> (which changes the text only when it
  starts with \<open>https://127.0.0.1\<close> or \<open>https://localhost\<close>).
\<close>

theorem C1_rewrite:
  assumes "uri reqOpts = Some (lit @ host @ googleapis @ rest)"
    and "host \<noteq> []" and "CHR ''/'' \<notin> set host"
    and "\<not> includes_str (takeWhile (\<lambda>c. c \<noteq> CHR ''/'') rest) googleapis"
    and "\<not> has_dollar_pattern emulatorHost"
    and "lit = ''https://'' \<and> regex_exec ''http://'' (emulatorHost @ rest) = None
         \<or> lit = ''http://'' \<and> regex_exec ''https://'' (lit @ host @ googleapis @ rest) = None"
  shows "uri (descriptor (makeAuthenticatedRequest P emulatorHost reqOpts))
           = Some (ensure_http (emulatorHost @ rest))
       \<and> uri (descriptor (makeAuthenticatedRequest_test P emulatorHost reqOpts))
           = Some (ensure_http (emulatorHost @ rest))"
proof -
  have "rewrite_uri emulatorHost (lit @ host @ googleapis @ rest) = emulatorHost @ rest"
    using assms(2-6) by (rule rewrite_uri_host)
  then have "redirect_uri emulatorHost (lit @ host @ googleapis @ rest)
             = ensure_http (emulatorHost @ rest)"
    by (simp add: redirect_uri_def)
  moreover have "lit @ host @ googleapis @ rest \<noteq> []" using assms(2) by simp
  ultimately show ?thesis using uri_redirect [OF assms(1)] by simp
qed

text \<open>
  The amended claim at three uris and the default emulator URL: an \<open>https\<close> uri whose query
  follows the host directly, an \<open>https\<close> uri whose query names another \<open>googleapis.com\<close> host,
  and an \<open>http\<close> uri whose query holds an \<open>https\<close> address elsewhere.
\<close>

theorem C1_rewrite_witness:
  "uri (descriptor (makeAuthenticatedRequest (sample_platform connection_refused) emulator_url
          (request_for ''https://bigquery.googleapis.com?alt=json'' None)))
     = Some ''http://127.0.0.1:9050?alt=json''
   \<and> uri (descriptor (makeAuthenticatedRequest_test (sample_platform connection_refused)
          emulator_url
          (request_for ''https://bigquery.googleapis.com/q?host=storage.googleapis.com'' None)))
     = Some ''http://127.0.0.1:9050/q?host=storage.googleapis.com''
   \<and> uri (descriptor (makeAuthenticatedRequest (sample_platform connection_refused) emulator_url
          (request_for ''http://bigquery.googleapis.com/q?next=https://example.com/o'' None)))
     = Some ''http://127.0.0.1:9050/q?next=https://example.com/o''"
proof -
  let ?P = "sample_platform connection_refused"
  have e: "\<not> has_dollar_pattern emulator_url" by (simp add: emulator_url_def)
  have h: "''bigquery'' \<noteq> []" "CHR ''/'' \<notin> set ''bigquery''" by simp_all
  have l: "ensure_http (emulator_url @ ''?alt=json'') = ''http://127.0.0.1:9050?alt=json''"
    "ensure_http (emulator_url @ ''/q?host=storage.googleapis.com'')
       = ''http://127.0.0.1:9050/q?host=storage.googleapis.com''"
    "ensure_http (emulator_url @ ''/q?next=https://example.com/o'')
       = ''http://127.0.0.1:9050/q?next=https://example.com/o''"
    by (simp_all add: ensure_http_def is_https_local_def startsWith_def emulator_url_def)
  have a1: "uri (request_for ''https://bigquery.googleapis.com?alt=json'' None)
            = Some (''https://'' @ ''bigquery'' @ googleapis @ ''?alt=json'')"
    by (simp add: request_for_def googleapis_def)
  have a2: "\<not> includes_str (takeWhile (\<lambda>c. c \<noteq> CHR ''/'') ''?alt=json'') googleapis"
    by (simp add: googleapis_def startsWith_def)
  have a3: "''https://'' = ''https://'' \<and> regex_exec ''http://'' (emulator_url @ ''?alt=json'') = None
         \<or> ''https://'' = ''http://''
            \<and> regex_exec ''https://'' (''https://'' @ ''bigquery'' @ googleapis @ ''?alt=json'')
                = None"
    by (simp add: emulator_url_def match_here_def startsWith_def googleapis_def)
  have b1: "uri (request_for ''https://bigquery.googleapis.com/q?host=storage.googleapis.com'' None)
            = Some (''https://'' @ ''bigquery'' @ googleapis @ ''/q?host=storage.googleapis.com'')"
    by (simp add: request_for_def googleapis_def)
  have b2: "\<not> includes_str (takeWhile (\<lambda>c. c \<noteq> CHR ''/'') ''/q?host=storage.googleapis.com'')
                 googleapis"
    by (simp add: googleapis_def)
  have b3: "''https://'' = ''https://''
            \<and> regex_exec ''http://'' (emulator_url @ ''/q?host=storage.googleapis.com'') = None
         \<or> ''https://'' = ''http://''
            \<and> regex_exec ''https://''
                 (''https://'' @ ''bigquery'' @ googleapis @ ''/q?host=storage.googleapis.com'')
                = None"
    by (simp add: emulator_url_def match_here_def startsWith_def googleapis_def)
  have c1: "uri (request_for ''http://bigquery.googleapis.com/q?next=https://example.com/o'' None)
            = Some (''http://'' @ ''bigquery'' @ googleapis @ ''/q?next=https://example.com/o'')"
    by (simp add: request_for_def googleapis_def)
  have c2: "\<not> includes_str (takeWhile (\<lambda>c. c \<noteq> CHR ''/'') ''/q?next=https://example.com/o'')
                 googleapis"
    by (simp add: googleapis_def)
  have c3: "''http://'' = ''https://''
            \<and> regex_exec ''http://'' (emulator_url @ ''/q?next=https://example.com/o'') = None
         \<or> ''http://'' = ''http://''
            \<and> regex_exec ''https://''
                 (''http://'' @ ''bigquery'' @ googleapis @ ''/q?next=https://example.com/o'')
                = None"
    by (simp add: match_here_def startsWith_def googleapis_def)
  show ?thesis
    using C1_rewrite [OF a1 h a2 e a3, of ?P] C1_rewrite [OF b1 h b2 e b3, of ?P]
      C1_rewrite [OF c1 h c2 e c3, of ?P]
    unfolding l by blast
qed

text \<open>
  Why the other two conditions are there. When \<open>.googleapis.com\<close> occurs again before the
  first slash, the greedy match runs up to the last occurrence and the text in between is
  lost. When the emulator base URL contains \<open>$&\<close>, the matched text is inserted in its place.
\<close>

lemma greedy_match_and_dollar_pattern:
  "redirect_uri emulator_url ''https://a.googleapis.com?x=.googleapis.com'' = emulator_url
   \<and> redirect_uri ''http://emu/$&'' ''https://a.googleapis.com/x''
       = ''http://emu/https://a.googleapis.com/x''"
  by (simp add: redirect_uri_def rewrite_uri_def replace_regex_def match_here_def
      startsWith_def googleapis_def splice_def ensure_http_def is_https_local_def
      emulator_url_def)

text \<open>
  Claim C1 as stated fails: the second \<open>replace\<close> is not anchored at the start of the uri, so
  an \<open>http://\<dots>.googleapis.com\<close> address inside the query of an \<open>https\<close> uri is rewritten too,
  and the query is not what it was.
\<close>

theorem C1_query_rewritten:
  "uri (descriptor (makeAuthenticatedRequest (sample_platform connection_refused) emulator_url
          (request_for ''https://bigquery.googleapis.com/q?next=http://storage.googleapis.com/o''
             None)))
     = Some (emulator_url @ ''/q?next=http://127.0.0.1:9050/o'')
   \<and> emulator_url @ ''/q?next=http://127.0.0.1:9050/o''
       \<noteq> emulator_url @ ''/q?next=http://storage.googleapis.com/o''"
  by (simp add: redirect_def request_for_def redirect_uri_def rewrite_uri_def replace_regex_def
      match_here_def startsWith_def googleapis_def splice_def ensure_http_def is_https_local_def
      emulator_url_def)

lemma https_local_downgraded:
  assumes "is_https_local u"
  shows "ensure_http u = ''http://'' @ drop 8 u
       \<and> startsWith (ensure_http u) ''http://'' \<and> \<not> startsWith (ensure_http u) ''https://''"
proof -
  have len: "length ''https://'' = 8" by simp
  have e: "ensure_http u = ''http://'' @ drop 8 u"
    using ensure_http_local [OF assms] unfolding len .
  show ?thesis unfolding e using not_https_http startsWith_append by blast
qed

lemma body_redirect [simp]: "body (redirect emulatorHost reqOpts) = body reqOpts"
  by (simp add: redirect_def split: option.splits)

lemma method_redirect [simp]: "req_method (redirect emulatorHost reqOpts) = req_method reqOpts"
  by (simp add: redirect_def split: option.splits)

lemma headers_redirect [simp]: "headers (redirect emulatorHost reqOpts) = headers reqOpts"
  by (simp add: redirect_def split: option.splits)

lemma callback_redirect [simp]: "callback (redirect emulatorHost reqOpts) = callback reqOpts"
  by (simp add: redirect_def split: option.splits)

lemma serialized_body_redirect [simp]:
  "serialized_body P (redirect emulatorHost reqOpts) = serialized_body P reqOpts"
  by (simp add: serialized_body_def)

lemma fetchOptions_redirect [simp]:
  "fetchOptions (redirect emulatorHost reqOpts) b = fetchOptions reqOpts b"
  by (simp add: fetchOptions_def method_or_GET_def merged_headers_def supplied_headers_def)

lemma dispatched_append [simp]: "dispatched (xs @ ys) = dispatched xs @ dispatched ys"
  by (induction xs rule: dispatched.induct) auto

lemma invocations_append [simp]: "invocations (xs @ ys) = invocations xs @ invocations ys"
  by (induction xs rule: invocations.induct) auto

lemma Fetch_dispatched: "Fetch x y \<in> set evs \<Longrightarrow> (x, y) \<in> set (dispatched evs)"
  by (induction evs rule: dispatched.induct) auto

lemma request_steps_dispatched:
  "dispatched (fst (request_steps P reqOpts))
     = (case serialized_body P reqOpts of
          Inl e \<Rightarrow> []
        | Inr b \<Rightarrow> [(uri reqOpts, fetchOptions reqOpts b)])"
  by (simp add: request_steps_def Let_def split: sum.splits option.splits)

lemma dispatched_index:
  "dispatched (trace (makeAuthenticatedRequest P emulatorHost reqOpts))
     = (case serialized_body P reqOpts of
          Inl e \<Rightarrow> []
        | Inr b \<Rightarrow> [(uri (redirect emulatorHost reqOpts), fetchOptions reqOpts b)])"
proof -
  obtain evs out where s: "request_steps P (redirect emulatorHost reqOpts) = (evs, out)"
    by (cases "request_steps P (redirect emulatorHost reqOpts)")
  have "dispatched (trace (makeAuthenticatedRequest P emulatorHost reqOpts)) = dispatched evs"
    using s by (simp add: makeAuthenticatedRequest_def Let_def split: sum.splits option.splits)
  also have "\<dots> = dispatched (fst (request_steps P (redirect emulatorHost reqOpts)))"
    using s by simp
  finally show ?thesis by (simp add: request_steps_dispatched cong: sum.case_cong)
qed

lemma dispatched_test:
  "dispatched (trace (makeAuthenticatedRequest_test P emulatorHost reqOpts))
     = (case serialized_body P reqOpts of
          Inl e \<Rightarrow> []
        | Inr b \<Rightarrow> [(uri (redirect emulatorHost reqOpts), fetchOptions reqOpts b)])"
proof -
  obtain evs out where s: "request_steps P (redirect emulatorHost reqOpts) = (evs, out)"
    by (cases "request_steps P (redirect emulatorHost reqOpts)")
  have "dispatched (trace (makeAuthenticatedRequest_test P emulatorHost reqOpts))
        = dispatched evs"
    using s by (simp add: makeAuthenticatedRequest_test_def Let_def split: sum.splits)
  also have "\<dots> = dispatched (fst (request_steps P (redirect emulatorHost reqOpts)))"
    using s by simp
  finally show ?thesis by (simp add: request_steps_dispatched cong: sum.case_cong)
qed

lemma fetched_uri:
  assumes "dispatched evs = (case sb of Inl e \<Rightarrow> [] | Inr b \<Rightarrow> [(target, opts b)])"
    and "Fetch x y \<in> set evs"
  shows "x = target"
proof -
  have "(x, y) \<in> set (dispatched evs)" using assms(2) by (rule Fetch_dispatched)
  then show ?thesis unfolding assms(1) by (cases sb) auto
qed




section \<open>Properties of the request functions\<close>

lemma request_steps_response:
  assumes "serialized_body P reqOpts = Inr b"
    and "fetch P (uri reqOpts) (fetchOptions reqOpts b) = Inr response"
    and "response_text response = Inr responseText"
  shows "request_steps P reqOpts =
     (case callback reqOpts of
        None \<Rightarrow> ([Fetch (uri reqOpts) (fetchOptions reqOpts b)],
                 Inr (normalized_result P response responseText))
      | Some cb \<Rightarrow>
          ([Fetch (uri reqOpts) (fetchOptions reqOpts b),
            Callback (completion_args response (normalized_result P response responseText))],
           case cb (completion_args response (normalized_result P response responseText)) of
             None \<Rightarrow> Inr (normalized_result P response responseText)
           | Some e \<Rightarrow> Inl e))"
  using assms by (simp add: request_steps_def Let_def split: option.splits)

lemma request_steps_network:
  assumes "serialized_body P reqOpts = Inr b"
    and "fetch P (uri reqOpts) (fetchOptions reqOpts b) = Inl err"
  shows "request_steps P reqOpts = ([Fetch (uri reqOpts) (fetchOptions reqOpts b)], Inl err)"
  using assms by (simp add: request_steps_def Let_def)

lemma completion_args_failed:
  "status response < 200 \<or> 300 \<le> status response \<Longrightarrow>
   completion_args response res = CallbackArgs (Some (RequestFailed (status response) res)) None (Some res)"
  by (auto simp: completion_args_def ok_def)

text \<open>
  Claim C3, amended. Let the descriptor carry a completion callback, let the request be sent
  and answered with a status outside 200 to 299, and let the callback return normally when it
  is handed the error. Then both request functions invoke the callback exactly once, with the
  error \<open>Request failed with status \<dots>\<close> that carries the normalized result, with no body and
  with the result; and the promise resolves with the normalized result.
\<close>

theorem C3_status_error_callback:
  assumes "callback reqOpts = Some cb"
    and "serialized_body P reqOpts = Inr b"
    and "fetch P (uri (redirect emulatorHost reqOpts)) (fetchOptions reqOpts b) = Inr response"
    and "response_text response = Inr responseText"
    and "status response < 200 \<or> 300 \<le> status response"
    and "cb (CallbackArgs (Some (RequestFailed (status response)
                                  (normalized_result P response responseText)))
               None (Some (normalized_result P response responseText))) = None"
  shows "invocations (trace (makeAuthenticatedRequest P emulatorHost reqOpts))
           = [CallbackArgs (Some (RequestFailed (status response)
                                    (normalized_result P response responseText)))
                None (Some (normalized_result P response responseText))]
       \<and> settled (makeAuthenticatedRequest P emulatorHost reqOpts)
           = Resolved (normalized_result P response responseText)
       \<and> invocations (trace (makeAuthenticatedRequest_test P emulatorHost reqOpts))
           = [CallbackArgs (Some (RequestFailed (status response)
                                    (normalized_result P response responseText)))
                None (Some (normalized_result P response responseText))]
       \<and> settled (makeAuthenticatedRequest_test P emulatorHost reqOpts)
           = Resolved (normalized_result P response responseText)"
proof -
  let ?r = "redirect emulatorHost reqOpts"
  let ?res = "normalized_result P response responseText"
  have a: "completion_args response ?res
           = CallbackArgs (Some (RequestFailed (status response) ?res)) None (Some ?res)"
    using assms(5) by (rule completion_args_failed)
  have "serialized_body P ?r = Inr b" using assms(2) by simp
  moreover have "fetch P (uri ?r) (fetchOptions ?r b) = Inr response" using assms(3) by simp
  ultimately have "request_steps P ?r
      = ([Fetch (uri ?r) (fetchOptions ?r b), Callback (completion_args response ?res)], Inr ?res)"
    using assms(1,4,6) a by (simp add: request_steps_response)
  then show ?thesis
    using a by (simp add: makeAuthenticatedRequest_def makeAuthenticatedRequest_test_def Let_def)
qed

lemmas request_defs =
  makeAuthenticatedRequest_def makeAuthenticatedRequest_test_def request_steps_def
  serialized_body_def fetchOptions_def method_or_GET_def normalized_result_def
  completion_args_def ok_def fromEntries_def Let_def

text \<open>
  The amended claim at a 404 answer and a callback that returns normally.
\<close>

theorem C3_status_error_callback_witness:
  "callback (request_for jobs_uri (Some quiet_callback)) = Some quiet_callback
   \<and> (404::nat) \<ge> 300
   \<and> invocations (trace (makeAuthenticatedRequest (sample_platform (reply_with 404 ''Not found''))
                             emulator_url (request_for jobs_uri (Some quiet_callback))))
       = [CallbackArgs
            (Some (RequestFailed 404
                     \<lparr>statusCode = 404, result_body = Text ''Not found'',
                      result_headers = Map.empty\<rparr>))
            None
            (Some \<lparr>statusCode = 404, result_body = Text ''Not found'',
                   result_headers = Map.empty\<rparr>)]
   \<and> settled (makeAuthenticatedRequest (sample_platform (reply_with 404 ''Not found''))
                emulator_url (request_for jobs_uri (Some quiet_callback)))
       = Resolved \<lparr>statusCode = 404, result_body = Text ''Not found'',
                   result_headers = Map.empty\<rparr>
   \<and> settled (makeAuthenticatedRequest_test (sample_platform (reply_with 404 ''Not found''))
                emulator_url (request_for jobs_uri (Some quiet_callback)))
       = Resolved \<lparr>statusCode = 404, result_body = Text ''Not found'',
                   result_headers = Map.empty\<rparr>"
proof -
  let ?P = "sample_platform (reply_with 404 ''Not found'')"
  let ?r = "request_for jobs_uri (Some quiet_callback)"
  let ?resp = "\<lparr>status = 404, response_text = Inr ''Not found'', response_headers = []\<rparr>
                 :: string Response"
  have h1: "callback ?r = Some quiet_callback" by (simp add: request_for_def)
  have h2: "serialized_body ?P ?r = Inr (Some ''{}'')"
    by (simp add: serialized_body_def sample_platform_def request_for_def)
  have h3: "fetch ?P (uri (redirect emulator_url ?r)) (fetchOptions ?r (Some ''{}'')) = Inr ?resp"
    by (simp add: sample_platform_def reply_with_def)
  have h4: "response_text ?resp = Inr ''Not found''" by simp
  have h5: "status ?resp < 200 \<or> 300 \<le> status ?resp" by simp
  have h6: "quiet_callback (CallbackArgs (Some (RequestFailed (status ?resp)
                                  (normalized_result ?P ?resp ''Not found'')))
               None (Some (normalized_result ?P ?resp ''Not found''))) = None"
    by (simp add: quiet_callback_def)
  have n: "normalized_result ?P ?resp ''Not found''
           = \<lparr>statusCode = 404, result_body = Text ''Not found'', result_headers = Map.empty\<rparr>"
    by (simp add: normalized_result_def sample_platform_def fromEntries_def)
  show ?thesis
    using C3_status_error_callback [OF h1 h2 h3 h4 h5 h6] h1 unfolding n by simp
qed

text \<open>
  Claim C3 as stated fails for a callback that throws the error it is given. In \<open>index.ts\<close> the
  callback is invoked inside \<open>try\<close>, so the handler invokes it a second time and the promise
  rejects with that same error; in \<open>test.ts\<close> the promise rejects with it as well.
\<close>

theorem C3_callback_throws:
  "invocations (trace (makeAuthenticatedRequest (sample_platform (reply_with 404 ''Not found''))
                         emulator_url (request_for jobs_uri (Some rethrowing_callback))))
     = [CallbackArgs
          (Some (RequestFailed 404
                   \<lparr>statusCode = 404, result_body = Text ''Not found'',
                    result_headers = Map.empty\<rparr>))
          None
          (Some \<lparr>statusCode = 404, result_body = Text ''Not found'',
                 result_headers = Map.empty\<rparr>),
        CallbackArgs
          (Some (RequestFailed 404
                   \<lparr>statusCode = 404, result_body = Text ''Not found'',
                    result_headers = Map.empty\<rparr>))
          None None]
   \<and> settled (makeAuthenticatedRequest (sample_platform (reply_with 404 ''Not found''))
                emulator_url (request_for jobs_uri (Some rethrowing_callback)))
       = Rejected (RequestFailed 404
                     \<lparr>statusCode = 404, result_body = Text ''Not found'',
                      result_headers = Map.empty\<rparr>)
   \<and> settled (makeAuthenticatedRequest_test (sample_platform (reply_with 404 ''Not found''))
                emulator_url (request_for jobs_uri (Some rethrowing_callback)))
       = Rejected (RequestFailed 404
                     \<lparr>statusCode = 404, result_body = Text ''Not found'',
                      result_headers = Map.empty\<rparr>)"
  by (simp add: request_defs sample_platform_def reply_with_def request_for_def
      rethrowing_callback_def)

lemma unparsed_body:
  "JSON_parse P responseText = None \<Longrightarrow>
   result_body (normalized_result P response responseText) = Text responseText"
  by (simp add: normalized_result_def)

text \<open>
  Claim C4, amended. Let the request be sent and answered, let \<open>JSON.parse\<close> fail on the text of
  the answer, and let the descriptor carry no callback or one that returns normally when it is
  handed this answer. Then the parsing step does not throw: the body of the normalized result
  is the raw text, the callback (if any) is handed this result once, and both request
  functions resolve with it.
\<close>

theorem C4_unparseable_body:
  assumes "serialized_body P reqOpts = Inr b"
    and "fetch P (uri (redirect emulatorHost reqOpts)) (fetchOptions reqOpts b) = Inr response"
    and "response_text response = Inr responseText"
    and "JSON_parse P responseText = None"
    and "case callback reqOpts of
           None \<Rightarrow> True
         | Some cb \<Rightarrow>
             cb (completion_args response (normalized_result P response responseText)) = None"
  shows "result_body (normalized_result P response responseText) = Text responseText
       \<and> settled (makeAuthenticatedRequest P emulatorHost reqOpts)
           = Resolved (normalized_result P response responseText)
       \<and> settled (makeAuthenticatedRequest_test P emulatorHost reqOpts)
           = Resolved (normalized_result P response responseText)
       \<and> invocations (trace (makeAuthenticatedRequest P emulatorHost reqOpts))
           = (case callback reqOpts of
                None \<Rightarrow> []
              | Some cb \<Rightarrow>
                  [completion_args response (normalized_result P response responseText)])
       \<and> invocations (trace (makeAuthenticatedRequest_test P emulatorHost reqOpts))
           = invocations (trace (makeAuthenticatedRequest P emulatorHost reqOpts))"
proof -
  let ?r = "redirect emulatorHost reqOpts"
  let ?res = "normalized_result P response responseText"
  have "serialized_body P ?r = Inr b" using assms(1) by simp
  moreover have "fetch P (uri ?r) (fetchOptions ?r b) = Inr response" using assms(2) by simp
  ultimately have s: "request_steps P ?r =
     (case callback ?r of
        None \<Rightarrow> ([Fetch (uri ?r) (fetchOptions ?r b)], Inr ?res)
      | Some cb \<Rightarrow>
          ([Fetch (uri ?r) (fetchOptions ?r b), Callback (completion_args response ?res)],
           case cb (completion_args response ?res) of
             None \<Rightarrow> Inr ?res
           | Some e \<Rightarrow> Inl e))"
    using assms(3) by (rule request_steps_response)
  show ?thesis
  proof (cases "callback reqOpts")
    case None
    then show ?thesis
      using s unparsed_body [OF assms(4)]
      by (simp add: makeAuthenticatedRequest_def makeAuthenticatedRequest_test_def Let_def)
  next
    case (Some cb)
    then have "cb (completion_args response ?res) = None" using assms(5) by simp
    then show ?thesis
      using Some s unparsed_body [OF assms(4)]
      by (simp add: makeAuthenticatedRequest_def makeAuthenticatedRequest_test_def Let_def)
  qed
qed

text \<open>
  The amended claim at an answer with status 200 that is no JSON, and a callback that returns
  normally.
\<close>

theorem C4_unparseable_body_witness:
  "JSON_parse (sample_platform (reply_with 200 ''<html>discovery</html>''))
     ''<html>discovery</html>'' = None
   \<and> quiet_callback
        (CallbackArgs None (Some (Text ''<html>discovery</html>''))
           (Some \<lparr>statusCode = 200, result_body = Text ''<html>discovery</html>'',
                  result_headers = Map.empty\<rparr>)) = None
   \<and> settled (makeAuthenticatedRequest (sample_platform (reply_with 200 ''<html>discovery</html>''))
                emulator_url (request_for jobs_uri (Some quiet_callback)))
       = Resolved \<lparr>statusCode = 200, result_body = Text ''<html>discovery</html>'',
                   result_headers = Map.empty\<rparr>
   \<and> settled (makeAuthenticatedRequest_test
                (sample_platform (reply_with 200 ''<html>discovery</html>''))
                emulator_url (request_for jobs_uri (Some quiet_callback)))
       = Resolved \<lparr>statusCode = 200, result_body = Text ''<html>discovery</html>'',
                   result_headers = Map.empty\<rparr>
   \<and> invocations (trace (makeAuthenticatedRequest
                           (sample_platform (reply_with 200 ''<html>discovery</html>''))
                           emulator_url (request_for jobs_uri (Some quiet_callback))))
       = [CallbackArgs None (Some (Text ''<html>discovery</html>''))
            (Some \<lparr>statusCode = 200, result_body = Text ''<html>discovery</html>'',
                   result_headers = Map.empty\<rparr>)]"
proof -
  let ?t = "''<html>discovery</html>''"
  let ?P = "sample_platform (reply_with 200 ?t)"
  let ?r = "request_for jobs_uri (Some quiet_callback)"
  let ?resp = "\<lparr>status = 200, response_text = Inr ?t, response_headers = []\<rparr> :: string Response"
  have h1: "serialized_body ?P ?r = Inr (Some ''{}'')"
    by (simp add: serialized_body_def sample_platform_def request_for_def)
  have h2: "fetch ?P (uri (redirect emulator_url ?r)) (fetchOptions ?r (Some ''{}'')) = Inr ?resp"
    by (simp add: sample_platform_def reply_with_def)
  have h3: "response_text ?resp = Inr ?t" by simp
  have h4: "JSON_parse ?P ?t = None" by (simp add: sample_platform_def)
  have h5: "case callback ?r of
              None \<Rightarrow> True
            | Some cb \<Rightarrow> cb (completion_args ?resp (normalized_result ?P ?resp ?t)) = None"
    by (simp add: request_for_def quiet_callback_def)
  have n: "normalized_result ?P ?resp ?t
           = \<lparr>statusCode = 200, result_body = Text ?t, result_headers = Map.empty\<rparr>"
    by (simp add: normalized_result_def sample_platform_def fromEntries_def)
  have a: "completion_args ?resp \<lparr>statusCode = 200, result_body = Text ?t,
                                   result_headers = Map.empty\<rparr>
           = CallbackArgs None (Some (Text ?t))
               (Some \<lparr>statusCode = 200, result_body = Text ?t, result_headers = Map.empty\<rparr>)"
    by (simp add: completion_args_def ok_def)
  have c: "callback ?r = Some quiet_callback" by (simp add: request_for_def)
  have q: "quiet_callback
        (CallbackArgs None (Some (Text ?t))
           (Some \<lparr>statusCode = 200, result_body = Text ?t, result_headers = Map.empty\<rparr>)) = None"
    by (simp add: quiet_callback_def)
  show ?thesis
    using C4_unparseable_body [OF h1 h2 h3 h4 h5] h4 q unfolding n a c by simp
qed

text \<open>
  Claim C4 as stated fails when the callback throws: the answer has status 200 and a body that
  is no JSON, the parsing step keeps the raw text, and yet no result is returned, because both
  request functions reject with what the callback threw.
\<close>

theorem C4_callback_throws:
  "JSON_parse (sample_platform (reply_with 200 ''<html>discovery</html>''))
     ''<html>discovery</html>'' = None
   \<and> settled (makeAuthenticatedRequest (sample_platform (reply_with 200 ''<html>discovery</html>''))
                emulator_url (request_for jobs_uri (Some throwing_callback)))
       = Rejected (Thrown ''callback failed'')
   \<and> settled (makeAuthenticatedRequest_test
                (sample_platform (reply_with 200 ''<html>discovery</html>''))
                emulator_url (request_for jobs_uri (Some throwing_callback)))
       = Rejected (Thrown ''callback failed'')"
  by (simp add: makeAuthenticatedRequest_def makeAuthenticatedRequest_test_def request_steps_def
      serialized_body_def sample_platform_def reply_with_def request_for_def
      throwing_callback_def Let_def)

lemma jobs_redirected:
  "redirect_uri emulator_url jobs_uri
     = ''http://127.0.0.1:9050/bigquery/v2/projects/test-project/jobs''"
  by (simp add: redirect_uri_def rewrite_uri_def replace_regex_def match_here_def
      startsWith_def googleapis_def splice_def ensure_http_def is_https_local_def
      emulator_url_def jobs_uri_def)

text \<open>
  Claim C7 on a refused connection and a descriptor with a callback. The request function of
  \<open>test.ts\<close> rejects the promise and never invokes the callback; the one of \<open>index.ts\<close> invokes
  the callback once with the error and rejects with it. Each calls \<open>fetch\<close> once.
\<close>

theorem C7_test_variant_skips_callback:
  "invocations (trace (makeAuthenticatedRequest_test (sample_platform connection_refused)
                         emulator_url (request_for jobs_uri (Some quiet_callback)))) = []
   \<and> settled (makeAuthenticatedRequest_test (sample_platform connection_refused)
                emulator_url (request_for jobs_uri (Some quiet_callback)))
       = Rejected (Thrown ''connect ECONNREFUSED 127.0.0.1:9050'')
   \<and> map fst (dispatched (trace (makeAuthenticatedRequest_test (sample_platform connection_refused)
                                  emulator_url (request_for jobs_uri (Some quiet_callback)))))
       = [Some ''http://127.0.0.1:9050/bigquery/v2/projects/test-project/jobs'']
   \<and> invocations (trace (makeAuthenticatedRequest (sample_platform connection_refused)
                         emulator_url (request_for jobs_uri (Some quiet_callback))))
       = [CallbackArgs (Some (Thrown ''connect ECONNREFUSED 127.0.0.1:9050'')) None None]
   \<and> settled (makeAuthenticatedRequest (sample_platform connection_refused)
                emulator_url (request_for jobs_uri (Some quiet_callback)))
       = Rejected (Thrown ''connect ECONNREFUSED 127.0.0.1:9050'')
   \<and> map fst (dispatched (trace (makeAuthenticatedRequest (sample_platform connection_refused)
                                  emulator_url (request_for jobs_uri (Some quiet_callback)))))
       = [Some ''http://127.0.0.1:9050/bigquery/v2/projects/test-project/jobs'']"
proof -
  let ?P = "sample_platform connection_refused"
  let ?r = "request_for jobs_uri (Some quiet_callback)"
  have u: "uri (redirect emulator_url ?r)
           = Some ''http://127.0.0.1:9050/bigquery/v2/projects/test-project/jobs''"
    by (simp add: redirect_def request_for_def jobs_redirected) (simp add: jobs_uri_def)
  have s: "request_steps ?P (redirect emulator_url ?r)
           = ([Fetch (uri (redirect emulator_url ?r)) (fetchOptions ?r (Some ''{}''))],
              Inl (Thrown ''connect ECONNREFUSED 127.0.0.1:9050''))"
    by (simp add: request_steps_def serialized_body_def sample_platform_def request_for_def
        connection_refused_def)
  have c: "callback ?r = Some quiet_callback"
    by (simp add: request_for_def)
  show ?thesis
    by (simp add: makeAuthenticatedRequest_def makeAuthenticatedRequest_test_def Let_def
        s c u quiet_callback_def)
qed

text \<open>
  What both request functions do when \<open>fetch\<close> fails: one call of \<open>fetch\<close> and no more, and
  a rejected promise. Only \<open>index.ts\<close> reports the error to the callback.
\<close>

lemma network_failure_propagates:
  assumes "serialized_body P reqOpts = Inr b"
    and "fetch P (uri (redirect emulatorHost reqOpts)) (fetchOptions reqOpts b) = Inl err"
  shows "dispatched (trace (makeAuthenticatedRequest P emulatorHost reqOpts))
           = [(uri (redirect emulatorHost reqOpts), fetchOptions reqOpts b)]
       \<and> (case callback reqOpts of
            None \<Rightarrow>
              invocations (trace (makeAuthenticatedRequest P emulatorHost reqOpts)) = []
              \<and> settled (makeAuthenticatedRequest P emulatorHost reqOpts) = Rejected err
          | Some cb \<Rightarrow>
              invocations (trace (makeAuthenticatedRequest P emulatorHost reqOpts))
                = [CallbackArgs (Some err) None None]
              \<and> settled (makeAuthenticatedRequest P emulatorHost reqOpts)
                = Rejected (case cb (CallbackArgs (Some err) None None) of
                              None \<Rightarrow> err | Some thrown \<Rightarrow> thrown))
       \<and> dispatched (trace (makeAuthenticatedRequest_test P emulatorHost reqOpts))
           = [(uri (redirect emulatorHost reqOpts), fetchOptions reqOpts b)]
       \<and> invocations (trace (makeAuthenticatedRequest_test P emulatorHost reqOpts)) = []
       \<and> settled (makeAuthenticatedRequest_test P emulatorHost reqOpts) = Rejected err"
proof -
  let ?r = "redirect emulatorHost reqOpts"
  have "serialized_body P ?r = Inr b" using assms(1) by simp
  moreover have "fetch P (uri ?r) (fetchOptions ?r b) = Inl err" using assms(2) by simp
  ultimately have "request_steps P ?r = ([Fetch (uri ?r) (fetchOptions ?r b)], Inl err)"
    by (rule request_steps_network)
  then show ?thesis
    by (simp add: makeAuthenticatedRequest_def makeAuthenticatedRequest_test_def Let_def
        split: option.splits)
qed

text \<open>
  Claim C9. After a call the descriptor is the caller's descriptor with the uri replaced by the
  redirected uri (an absent or empty uri stays as it is); method, headers, body and callback
  are those of the caller. Both request functions leave the same descriptor.
\<close>

theorem C9_only_uri_changes:
  "descriptor (makeAuthenticatedRequest P emulatorHost reqOpts)
     = reqOpts\<lparr>uri := (case uri reqOpts of
                          None \<Rightarrow> None
                        | Some u \<Rightarrow> if u = [] then Some u
                                    else Some (redirect_uri emulatorHost u))\<rparr>
   \<and> req_method (descriptor (makeAuthenticatedRequest P emulatorHost reqOpts)) = req_method reqOpts
   \<and> headers (descriptor (makeAuthenticatedRequest P emulatorHost reqOpts)) = headers reqOpts
   \<and> body (descriptor (makeAuthenticatedRequest P emulatorHost reqOpts)) = body reqOpts
   \<and> callback (descriptor (makeAuthenticatedRequest P emulatorHost reqOpts)) = callback reqOpts
   \<and> descriptor (makeAuthenticatedRequest_test P emulatorHost reqOpts)
       = descriptor (makeAuthenticatedRequest P emulatorHost reqOpts)"
proof -
  have d: "descriptor (makeAuthenticatedRequest P emulatorHost reqOpts)
           = redirect emulatorHost reqOpts"
    and t: "descriptor (makeAuthenticatedRequest_test P emulatorHost reqOpts)
           = redirect emulatorHost reqOpts"
    by (rule descriptor_index, rule descriptor_test)
  have "redirect emulatorHost reqOpts
        = reqOpts\<lparr>uri := (case uri reqOpts of
                             None \<Rightarrow> None
                           | Some u \<Rightarrow> if u = [] then Some u
                                       else Some (redirect_uri emulatorHost u))\<rparr>"
  proof (cases "uri reqOpts")
    case None
    then show ?thesis by (simp add: redirect_def)
  next
    case (Some u)
    then show ?thesis by (cases "u = []") (simp_all add: redirect_def)
  qed
  moreover have "req_method (redirect emulatorHost reqOpts) = req_method reqOpts"
    and "headers (redirect emulatorHost reqOpts) = headers reqOpts"
    and "body (redirect emulatorHost reqOpts) = body reqOpts"
    and "callback (redirect emulatorHost reqOpts) = callback reqOpts"
    by (rule method_redirect, rule headers_redirect, rule body_redirect, rule callback_redirect)
  ultimately show ?thesis unfolding d t by simp
qed

text \<open>
  Claim C9 at the uri of a job submission.
\<close>

theorem C9_only_uri_changes_witness:
  "descriptor (makeAuthenticatedRequest (sample_platform (reply_with 200 ''{}'')) emulator_url
                 (request_for jobs_uri (Some quiet_callback)))
     = \<lparr>uri = Some ''http://127.0.0.1:9050/bigquery/v2/projects/test-project/jobs'',
        req_method = Some ''POST'', headers = None, body = Some ''{}'',
        callback = Some quiet_callback\<rparr>"
proof -
  have "redirect_uri emulator_url jobs_uri
        = ''http://127.0.0.1:9050/bigquery/v2/projects/test-project/jobs''"
    by (simp add: redirect_uri_def rewrite_uri_def replace_regex_def match_here_def
        startsWith_def googleapis_def splice_def ensure_http_def is_https_local_def
        emulator_url_def jobs_uri_def)
  moreover have "jobs_uri \<noteq> []" by (simp add: jobs_uri_def)
  ultimately show ?thesis
    using C9_only_uri_changes [of "sample_platform (reply_with 200 ''{}'')" emulator_url
        "request_for jobs_uri (Some quiet_callback)"]
    by (simp add: request_for_def)
qed

lemma merged_headers_lookup:
  "merged_headers reqOpts k
     = (case supplied_headers reqOpts k of
          Some v \<Rightarrow> Some v
        | None \<Rightarrow> if k = ''Content-Type'' then Some ''application/json'' else None)"
  by (simp add: merged_headers_def map_add_def split: option.splits)

text \<open>
  Claim C10, amended. When the body can be serialized, both request functions call \<open>fetch\<close>
  once, and the headers of that call are these: a header the caller supplied has the
  caller's value, \<open>Content-Type\<close> is \<open>application/json\<close> when the caller supplied no
  \<open>Content-Type\<close>, and there is no other header.
\<close>

theorem C10_header_precedence:
  assumes "serialized_body P reqOpts = Inr b"
  shows "dispatched (trace (makeAuthenticatedRequest P emulatorHost reqOpts))
           = [(uri (redirect emulatorHost reqOpts), fetchOptions reqOpts b)]
       \<and> dispatched (trace (makeAuthenticatedRequest_test P emulatorHost reqOpts))
           = [(uri (redirect emulatorHost reqOpts), fetchOptions reqOpts b)]
       \<and> (\<forall>k. fetch_headers (fetchOptions reqOpts b) k
                = (case supplied_headers reqOpts k of
                     Some v \<Rightarrow> Some v
                   | None \<Rightarrow> if k = ''Content-Type'' then Some ''application/json'' else None))"
  using assms
  by (simp add: dispatched_index dispatched_test fetchOptions_def merged_headers_lookup)

text \<open>
  The amended claim at a caller who supplies one other header.
\<close>

theorem C10_header_precedence_witness:
  "serialized_body (sample_platform (reply_with 200 ''{}''))
       ((request_for jobs_uri None)\<lparr>headers := Some [''X-Goog-Api-Client'' \<mapsto> ''gl-node'']\<rparr>)
     = Inr (Some ''{}'')
   \<and> map (\<lambda>(u, opts). (fetch_headers opts ''X-Goog-Api-Client'', fetch_headers opts ''Content-Type''))
        (dispatched (trace (makeAuthenticatedRequest (sample_platform (reply_with 200 ''{}''))
           emulator_url
           ((request_for jobs_uri None)\<lparr>headers := Some [''X-Goog-Api-Client'' \<mapsto> ''gl-node'']\<rparr>))))
     = [(Some ''gl-node'', Some ''application/json'')]"
proof -
  let ?P = "sample_platform (reply_with 200 ''{}'')"
  let ?r = "(request_for jobs_uri None)\<lparr>headers := Some [''X-Goog-Api-Client'' \<mapsto> ''gl-node'']\<rparr>"
  have h: "serialized_body ?P ?r = Inr (Some ''{}'')"
    by (simp add: serialized_body_def sample_platform_def request_for_def)
  show ?thesis
    using C10_header_precedence [OF h, of emulator_url] h
    by (simp add: supplied_headers_def request_for_def)
qed

text \<open>
  Claim C10 as stated fails in one direction of its "exactly when": a caller who supplies
  \<open>Content-Type: application/json\<close> is sent \<open>application/json\<close> too.
\<close>

theorem C10_default_equals_supplied:
  "map snd (dispatched (trace (makeAuthenticatedRequest (sample_platform (reply_with 200 ''{}''))
          emulator_url
          ((request_for jobs_uri None)
             \<lparr>headers := Some [''Content-Type'' \<mapsto> ''application/json'']\<rparr>))))
     = [\<lparr>fetch_method = ''POST'',
         fetch_headers = [''Content-Type'' \<mapsto> ''application/json''],
         fetch_body = Some ''{}''\<rparr>]
   \<and> supplied_headers ((request_for jobs_uri None)
                          \<lparr>headers := Some [''Content-Type'' \<mapsto> ''application/json'']\<rparr>)
        ''Content-Type''
       = Some ''application/json''"
  by (simp add: dispatched_index serialized_body_def fetchOptions_def method_or_GET_def
      merged_headers_def supplied_headers_def sample_platform_def request_for_def)

section \<open>Properties of the scripts\<close>

lemma await_Inl [simp]: "await (Inl err) k = Inl (SdkError err)"
  by (simp add: await_def)

lemma await_Inr [simp]: "await (Inr x) k = k x"
  by (simp add: await_def)

lemmas row_defs =
  and_then_def read_field_def defined_def index0_def print_env_row_def print_simple_row_def
  print_override_row_def print_stats_def sample_row_def

text \<open>
  Claim C5, amended. A creation step that fails with code 409 continues with the reference to
  the existing resource. In \<open>env-variable-example/index.ts\<close> and \<open>override-auth-example/index.ts\<close>
  every other error is thrown again and ends the sequence. In \<open>simple-index.ts\<close> an error
  whose message contains \<open>already\<close> is recovered as well, whatever its code, and only the
  remaining errors are thrown again. For each of the three scripts, a run whose dataset or
  table creation fails in a recovered way equals the run in which that creation returned the
  reference.
\<close>

theorem C5_conflict_recovered:
  "(code err = Some 409 \<longrightarrow>
      catch_409 (Inl err) existing = Inr existing
      \<and> catch_409_or_already (Inl err) existing = Inr existing)
   \<and> (code err \<noteq> Some 409 \<longrightarrow>
      catch_409 (Inl err) existing = Inl err
      \<and> catch_409_or_already (Inl err) existing
          = (if mentions_already err then Inr existing else Inl err))
   \<and> (createDataset bq ''test_dataset'' = Inl err \<longrightarrow>
      main_env_try bq
        = (if code err = Some 409
           then main_env_try (bq\<lparr>createDataset := \<lambda>name. Inr (dataset bq ''test_dataset'')\<rparr>)
           else Inl (SdkError err)))
   \<and> (catch_409 (createDataset bq ''test_dataset'') (dataset bq ''test_dataset'') = Inr ds
      \<and> createTable bq ds ''test_table'' = Inl err \<longrightarrow>
      main_env_try bq
        = (if code err = Some 409
           then main_env_try (bq\<lparr>createTable := \<lambda>d name. Inr (table bq ds ''test_table'')\<rparr>)
           else Inl (SdkError err)))
   \<and> (createDataset bq ''override_test_dataset'' = Inl err \<longrightarrow>
      main_override_try bq
        = (if code err = Some 409
           then main_override_try
                  (bq\<lparr>createDataset := \<lambda>name. Inr (dataset bq ''override_test_dataset'')\<rparr>)
           else Inl (SdkError err))
      \<and> main_simple_try bq
        = (if code err = Some 409 \<or> mentions_already err
           then main_simple_try
                  (bq\<lparr>createDataset := \<lambda>name. Inr (dataset bq ''override_test_dataset'')\<rparr>)
           else Inl (SdkError err)))
   \<and> (catch_409 (createDataset bq ''override_test_dataset'')
        (dataset bq ''override_test_dataset'') = Inr ds
      \<and> createTable bq ds ''users_table'' = Inl err \<longrightarrow>
      main_override_try bq
        = (if code err = Some 409
           then main_override_try (bq\<lparr>createTable := \<lambda>d name. Inr (table bq ds ''users_table'')\<rparr>)
           else Inl (SdkError err)))
   \<and> (catch_409_or_already (createDataset bq ''override_test_dataset'')
        (dataset bq ''override_test_dataset'') = Inr ds
      \<and> createTable bq ds ''simple_users'' = Inl err \<longrightarrow>
      main_simple_try bq
        = (if code err = Some 409 \<or> mentions_already err
           then main_simple_try (bq\<lparr>createTable := \<lambda>d name. Inr (table bq ds ''simple_users'')\<rparr>)
           else Inl (SdkError err)))"
  by (simp add: catch_409_def catch_409_or_already_def main_env_try_def main_override_try_def
      main_simple_try_def)

text \<open>
  The amended claim at a client whose dataset exists already, and at one that cannot connect.
\<close>

theorem C5_conflict_recovered_witness:
  "code already_exists = Some 409
   \<and> createDataset (sample_client (\<lambda>name. Inl already_exists) (\<lambda>q. Inr 0)) ''test_dataset''
       = Inl already_exists
   \<and> catch_409 (Inl already_exists) ''test_dataset'' = Inr ''test_dataset''
   \<and> main_env_try (sample_client (\<lambda>name. Inl already_exists) (\<lambda>q. Inr 0)) = Inr ()
   \<and> main_override_try (sample_client (\<lambda>name. Inl already_exists) (\<lambda>q. Inr 0)) = Inr ()
   \<and> main_simple_try (sample_client (\<lambda>name. Inl already_exists) (\<lambda>q. Inr 0)) = Inr ()
   \<and> code unavailable \<noteq> Some 409 \<and> \<not> mentions_already unavailable
   \<and> main_env_try (sample_client (\<lambda>name. Inl unavailable) (\<lambda>q. Inr 0))
       = Inl (SdkError unavailable)
   \<and> main_simple_try (sample_client (\<lambda>name. Inl unavailable) (\<lambda>q. Inr 0))
       = Inl (SdkError unavailable)"
proof -
  let ?c = "sample_client (\<lambda>name. Inl already_exists) (\<lambda>q. Inr 0)"
  let ?d = "sample_client (\<lambda>name. Inl unavailable) (\<lambda>q. Inr 0)"
  have a: "code already_exists = Some 409" by (simp add: already_exists_def)
  have u: "code unavailable \<noteq> Some 409 \<and> \<not> mentions_already unavailable"
    by (simp add: unavailable_def mentions_already_def startsWith_def)
  have c1: "createDataset ?c ''test_dataset'' = Inl already_exists"
    and c2: "createDataset ?c ''override_test_dataset'' = Inl already_exists"
    and d1: "createDataset ?d ''test_dataset'' = Inl unavailable"
    and d2: "createDataset ?d ''override_test_dataset'' = Inl unavailable"
    by (simp_all add: sample_client_def)
  have ok: "main_env_try (?c\<lparr>createDataset := \<lambda>name. Inr (dataset ?c ''test_dataset'')\<rparr>) = Inr ()"
    "main_override_try (?c\<lparr>createDataset := \<lambda>name. Inr (dataset ?c ''override_test_dataset'')\<rparr>)
       = Inr ()"
    "main_simple_try (?c\<lparr>createDataset := \<lambda>name. Inr (dataset ?c ''override_test_dataset'')\<rparr>)
       = Inr ()"
    by (simp_all add: sample_client_def main_env_try_def main_override_try_def
        main_simple_try_def catch_409_def catch_409_or_already_def row_defs)
  show ?thesis
    using C5_conflict_recovered [of already_exists "''test_dataset''" ?c]
      C5_conflict_recovered [of unavailable "''test_dataset''" ?d]
      a u c1 c2 d1 d2 ok
    by (simp add: sample_client_def)
qed

text \<open>
  Claim C5 as stated fails in \<open>simple-index.ts\<close>: an error with code 500 whose message contains
  \<open>already\<close> is not thrown again, and the script ends with exit code 0.
\<close>

theorem C5_message_recovered:
  "code internal_already \<noteq> Some 409
   \<and> catch_409_or_already (Inl internal_already) ''override_test_dataset''
       = Inr ''override_test_dataset''
   \<and> main_simple_try (sample_client (\<lambda>name. Inl internal_already) (\<lambda>q. Inr 0)) = Inr ()
   \<and> main_simple (sample_client (\<lambda>name. Inl internal_already) (\<lambda>q. Inr 0)) = 0"
  by (simp add: internal_already_def catch_409_or_already_def mentions_already_def
      startsWith_def main_simple_def main_simple_try_def sample_client_def exit_code_def
      row_defs)

text \<open>
  Four scripts delete the three credential variables before they create a client.
\<close>

lemma credentials_cleared:
  "v \<in> {''GOOGLE_APPLICATION_CREDENTIALS'', ''GOOGLE_CLOUD_PROJECT'', ''GCLOUD_PROJECT''} \<Longrightarrow>
   env_index_env dotenv_file env0 v = None \<and> env_test_env dotenv_file env0 v = None
   \<and> simple_index_env dotenv_file env0 v = None \<and> minimal_test_env env0 v = None"
  by (auto simp: env_index_env_def env_test_env_def simple_index_env_def minimal_test_env_def
      clear_credentials_def Let_def)

text \<open>
  Claim C6 on an environment in which \<open>GOOGLE_APPLICATION_CREDENTIALS\<close> is set: after the top
  level of \<open>override-auth-example/index.ts\<close> and of \<open>override-auth-example/test.ts\<close> the variable
  still has its value, while \<open>env-variable-example/index.ts\<close> has deleted it.
\<close>

theorem C6_override_keeps_credentials:
  "override_index_env Map.empty
       [''GOOGLE_APPLICATION_CREDENTIALS'' \<mapsto> ''/home/dev/production-key.json'']
       ''GOOGLE_APPLICATION_CREDENTIALS''
     = Some ''/home/dev/production-key.json''
   \<and> override_test_env Map.empty
       [''GOOGLE_APPLICATION_CREDENTIALS'' \<mapsto> ''/home/dev/production-key.json'']
       ''GOOGLE_APPLICATION_CREDENTIALS''
     = Some ''/home/dev/production-key.json''
   \<and> env_index_env Map.empty
       [''GOOGLE_APPLICATION_CREDENTIALS'' \<mapsto> ''/home/dev/production-key.json'']
       ''GOOGLE_APPLICATION_CREDENTIALS''
     = None"
  by (simp add: override_index_env_def override_test_env_def dotenv_config_def
      env_index_env_def clear_credentials_def Let_def)

lemma exit_code_cases: "exit_code r = 0 \<or> exit_code r = 1"
  by (cases r) (simp_all add: exit_code_def)

lemma await_Inr_iff: "await p k = Inr y \<longleftrightarrow> (\<exists>x. p = Inr x \<and> k x = Inr y)"
  by (cases p) simp_all

lemma and_then_Inr_iff: "and_then r k = Inr y \<longleftrightarrow> (\<exists>x. r = Inr x \<and> k x = Inr y)"
  by (cases r) (simp_all add: and_then_def)

lemma read_field_Inr_iff: "read_field v name = Inr x \<longleftrightarrow> defined v \<and> x = field v name"
  by (auto simp: read_field_def)

lemma reads_Inr_iff: "reads v names = Inr y \<longleftrightarrow> names = [] \<or> defined v"
  by (induction names) (auto simp: and_then_Inr_iff read_field_Inr_iff)

lemma forEach_Inr_iff: "forEach f xs = Inr y \<longleftrightarrow> (\<forall>x \<in> set xs. \<exists>z. f x = Inr z)"
  by (induction xs) (auto split: sum.splits)

lemma toFixed_Inr_iff: "toFixed v = Inr y \<longleftrightarrow> (\<exists>x. v = Num x)"
  by (cases v) simp_all

lemma print_env_row_iff:
  "print_env_row row = Inr y \<longleftrightarrow> defined row \<and> defined (field row ''created_at'')"
  unfolding print_env_row_def and_then_Inr_iff read_field_Inr_iff reads_Inr_iff by auto

lemma print_simple_row_iff: "print_simple_row row = Inr y \<longleftrightarrow> defined row"
  unfolding print_simple_row_def reads_Inr_iff by simp

lemma print_override_row_iff: "print_override_row row = Inr y \<longleftrightarrow> defined row"
  unfolding print_override_row_def reads_Inr_iff by simp

lemma print_stats_iff:
  "print_stats stats = Inr y \<longleftrightarrow>
     defined stats
     \<and> (truthy_value (field stats ''avg_age'') \<longrightarrow> (\<exists>x. field stats ''avg_age'' = Num x))"
  unfolding print_stats_def and_then_Inr_iff read_field_Inr_iff reads_Inr_iff
  by (auto simp: toFixed_Inr_iff)

lemma exit_code_0: "exit_code r = 0 \<longleftrightarrow> (\<exists>y. r = Inr y)"
  by (cases r) (simp_all add: exit_code_def)

lemma if_Inr_iff: "(if c then r else Inl e) = Inr y \<longleftrightarrow> c \<and> r = Inr y"
  by simp

lemmas sequence_iffs =
  exit_code_0 await_Inr_iff and_then_Inr_iff reads_Inr_iff forEach_Inr_iff print_env_row_iff
  print_simple_row_iff print_override_row_iff print_stats_iff read_field_Inr_iff

text \<open>
  Claim C8, amended. The three \<open>main\<close> scripts and the two connection tests exit with 0 or 1,
  and with 0 exactly when every awaited call of the sequence succeeds (a creation also when
  its failure is recovered) and every property that is read is read from a value that is
  neither \<open>undefined\<close> nor \<open>null\<close>: each printed row, \<open>created_at\<close> of each row in
  \<open>env-variable-example/index.ts\<close>, the first row of the aggregation and of the statistics (whose
  \<open>avg_age\<close>, when truthy, must be a number), and in the connection tests a first row, with
  \<open>current_time\<close> in \<open>env-variable-example/test.ts\<close>. The minimal test script exits with 0
  whatever its two attempts do.
\<close>

theorem C8_exit_codes:
  "(main_env bq = 0 \<or> main_env bq = 1)
   \<and> (main_env bq = 0 \<longleftrightarrow>
        (\<exists>ds tbl job queryRows aggJob aggRows.
           catch_409 (createDataset bq ''test_dataset'') (dataset bq ''test_dataset'') = Inr ds
           \<and> catch_409 (createTable bq ds ''test_table'') (table bq ds ''test_table'') = Inr tbl
           \<and> insert_rows bq tbl = Inr ()
           \<and> createQueryJob bq (EnvQuery ds) = Inr job
           \<and> getQueryResults bq job = Inr queryRows
           \<and> (\<forall>row \<in> set queryRows. defined row \<and> defined (field row ''created_at''))
           \<and> createQueryJob bq (AggregationQuery ds) = Inr aggJob
           \<and> getQueryResults bq aggJob = Inr aggRows
           \<and> defined (index0 aggRows)))
   \<and> (main_override bq = 0 \<or> main_override bq = 1)
   \<and> (main_override bq = 0 \<longleftrightarrow>
        (\<exists>ds tbl job queryRows statsJob statsRows.
           catch_409 (createDataset bq ''override_test_dataset'')
             (dataset bq ''override_test_dataset'') = Inr ds
           \<and> catch_409 (createTable bq ds ''users_table'') (table bq ds ''users_table'') = Inr tbl
           \<and> insert_rows bq tbl = Inr ()
           \<and> createQueryJob bq (OverrideQuery ds) = Inr job
           \<and> getQueryResults bq job = Inr queryRows
           \<and> (\<forall>row \<in> set queryRows. defined row)
           \<and> createQueryJob bq (StatsQuery ds) = Inr statsJob
           \<and> getQueryResults bq statsJob = Inr statsRows
           \<and> defined (index0 statsRows)
           \<and> (truthy_value (field (index0 statsRows) ''avg_age'')
                \<longrightarrow> (\<exists>x. field (index0 statsRows) ''avg_age'' = Num x))))
   \<and> (main_simple bq = 0 \<or> main_simple bq = 1)
   \<and> (main_simple bq = 0 \<longleftrightarrow>
        (\<exists>ds tbl job queryRows.
           catch_409_or_already (createDataset bq ''override_test_dataset'')
             (dataset bq ''override_test_dataset'') = Inr ds
           \<and> catch_409_or_already (createTable bq ds ''simple_users'')
               (table bq ds ''simple_users'') = Inr tbl
           \<and> insert_rows bq tbl = Inr ()
           \<and> createQueryJob bq (SimpleQuery ds) = Inr job
           \<and> getQueryResults bq job = Inr queryRows
           \<and> (\<forall>row \<in> set queryRows. defined row)))
   \<and> (testConnection_env bq = 0 \<or> testConnection_env bq = 1)
   \<and> (testConnection_env bq = 0 \<longleftrightarrow>
        (\<exists>job rows. createQueryJob bq TestValueQuery = Inr job
           \<and> getQueryResults bq job = Inr rows \<and> rows \<noteq> []
           \<and> defined (index0 rows) \<and> defined (field (index0 rows) ''current_time'')))
   \<and> (testConnection_override bq = 0 \<or> testConnection_override bq = 1)
   \<and> (testConnection_override bq = 0 \<longleftrightarrow>
        (\<exists>job rows. createQueryJob bq HelloQuery = Inr job
           \<and> getQueryResults bq job = Inr rows \<and> rows \<noteq> [] \<and> defined (index0 rows)))
   \<and> snd (testEmulator bq bq2) = 0"
proof -
  have env: "main_env bq = 0 \<longleftrightarrow>
        (\<exists>ds tbl job queryRows aggJob aggRows.
           catch_409 (createDataset bq ''test_dataset'') (dataset bq ''test_dataset'') = Inr ds
           \<and> catch_409 (createTable bq ds ''test_table'') (table bq ds ''test_table'') = Inr tbl
           \<and> insert_rows bq tbl = Inr ()
           \<and> createQueryJob bq (EnvQuery ds) = Inr job
           \<and> getQueryResults bq job = Inr queryRows
           \<and> (\<forall>row \<in> set queryRows. defined row \<and> defined (field row ''created_at''))
           \<and> createQueryJob bq (AggregationQuery ds) = Inr aggJob
           \<and> getQueryResults bq aggJob = Inr aggRows
           \<and> defined (index0 aggRows))"
    unfolding main_env_def main_env_try_def sequence_iffs by auto
  have override: "main_override bq = 0 \<longleftrightarrow>
        (\<exists>ds tbl job queryRows statsJob statsRows.
           catch_409 (createDataset bq ''override_test_dataset'')
             (dataset bq ''override_test_dataset'') = Inr ds
           \<and> catch_409 (createTable bq ds ''users_table'') (table bq ds ''users_table'') = Inr tbl
           \<and> insert_rows bq tbl = Inr ()
           \<and> createQueryJob bq (OverrideQuery ds) = Inr job
           \<and> getQueryResults bq job = Inr queryRows
           \<and> (\<forall>row \<in> set queryRows. defined row)
           \<and> createQueryJob bq (StatsQuery ds) = Inr statsJob
           \<and> getQueryResults bq statsJob = Inr statsRows
           \<and> defined (index0 statsRows)
           \<and> (truthy_value (field (index0 statsRows) ''avg_age'')
                \<longrightarrow> (\<exists>x. field (index0 statsRows) ''avg_age'' = Num x)))"
    unfolding main_override_def main_override_try_def sequence_iffs by auto
  have simple: "main_simple bq = 0 \<longleftrightarrow>
        (\<exists>ds tbl job queryRows.
           catch_409_or_already (createDataset bq ''override_test_dataset'')
             (dataset bq ''override_test_dataset'') = Inr ds
           \<and> catch_409_or_already (createTable bq ds ''simple_users'')
               (table bq ds ''simple_users'') = Inr tbl
           \<and> insert_rows bq tbl = Inr ()
           \<and> createQueryJob bq (SimpleQuery ds) = Inr job
           \<and> getQueryResults bq job = Inr queryRows
           \<and> (\<forall>row \<in> set queryRows. defined row))"
    unfolding main_simple_def main_simple_try_def sequence_iffs by auto
  have test_env: "testConnection_env bq = 0 \<longleftrightarrow>
        (\<exists>job rows. createQueryJob bq TestValueQuery = Inr job
           \<and> getQueryResults bq job = Inr rows \<and> rows \<noteq> []
           \<and> defined (index0 rows) \<and> defined (field (index0 rows) ''current_time''))"
    unfolding testConnection_env_def testConnection_env_try_def exit_code_0 await_Inr_iff
      if_Inr_iff and_then_Inr_iff read_field_Inr_iff reads_Inr_iff
    by auto
  have test_override: "testConnection_override bq = 0 \<longleftrightarrow>
        (\<exists>job rows. createQueryJob bq HelloQuery = Inr job
           \<and> getQueryResults bq job = Inr rows \<and> rows \<noteq> [] \<and> defined (index0 rows))"
    unfolding testConnection_override_def testConnection_override_try_def exit_code_0
      await_Inr_iff if_Inr_iff reads_Inr_iff
    by auto
  have codes: "main_env bq = 0 \<or> main_env bq = 1"
    "main_override bq = 0 \<or> main_override bq = 1"
    "main_simple bq = 0 \<or> main_simple bq = 1"
    "testConnection_env bq = 0 \<or> testConnection_env bq = 1"
    "testConnection_override bq = 0 \<or> testConnection_override bq = 1"
    unfolding main_env_def main_override_def main_simple_def testConnection_env_def
      testConnection_override_def
    by (rule exit_code_cases)+
  have minimal: "snd (testEmulator bq bq2) = 0"
    by (simp add: testEmulator_def)
  show ?thesis
    by (intro conjI) (fact codes env override simple test_env test_override minimal)+
qed

text \<open>
  The amended claim at three clients: one on which everything succeeds, one whose queries
  cannot be submitted, and one whose only row has no \<open>current_time\<close>.
\<close>

theorem C8_exit_codes_witness:
  "main_env (sample_client (\<lambda>name. Inr name) (\<lambda>q. Inr 0)) = 0
   \<and> testConnection_env (sample_client (\<lambda>name. Inr name) (\<lambda>q. Inr 0)) = 0
   \<and> testConnection_override (sample_client (\<lambda>name. Inr name) (\<lambda>q. Inr 0)) = 0
   \<and> main_env (sample_client (\<lambda>name. Inr name) (\<lambda>q. Inl unavailable)) = 1
   \<and> testConnection_env (sample_client (\<lambda>name. Inr name) (\<lambda>q. Inl unavailable)) = 1
   \<and> testConnection_override (sample_client (\<lambda>name. Inr name) (\<lambda>q. Inl unavailable)) = 1
   \<and> testConnection_env (rows_client [Obj [(''test_value'', Num 1)]]) = 1
   \<and> testConnection_override (rows_client [Obj [(''test_value'', Num 1)]]) = 0"
proof -
  let ?good = "sample_client (\<lambda>name. Inr name) (\<lambda>q. Inr 0)"
  let ?bad = "sample_client (\<lambda>name. Inr name) (\<lambda>q. Inl unavailable)"
  let ?bare = "rows_client [Obj [(''test_value'', Num 1)]]"
  have g1: "\<exists>ds tbl job queryRows aggJob aggRows.
           catch_409 (createDataset ?good ''test_dataset'') (dataset ?good ''test_dataset'') = Inr ds
           \<and> catch_409 (createTable ?good ds ''test_table'') (table ?good ds ''test_table'') = Inr tbl
           \<and> insert_rows ?good tbl = Inr ()
           \<and> createQueryJob ?good (EnvQuery ds) = Inr job
           \<and> getQueryResults ?good job = Inr queryRows
           \<and> (\<forall>row \<in> set queryRows. defined row \<and> defined (field row ''created_at''))
           \<and> createQueryJob ?good (AggregationQuery ds) = Inr aggJob
           \<and> getQueryResults ?good aggJob = Inr aggRows
           \<and> defined (index0 aggRows)"
    by (simp add: sample_client_def catch_409_def sample_row_def defined_def index0_def)
  have g2: "\<exists>job rows. createQueryJob ?good TestValueQuery = Inr job
           \<and> getQueryResults ?good job = Inr rows \<and> rows \<noteq> []
           \<and> defined (index0 rows) \<and> defined (field (index0 rows) ''current_time'')"
    by (simp add: sample_client_def sample_row_def defined_def index0_def)
  have g3: "\<exists>job rows. createQueryJob ?good HelloQuery = Inr job
           \<and> getQueryResults ?good job = Inr rows \<and> rows \<noteq> [] \<and> defined (index0 rows)"
    by (simp add: sample_client_def sample_row_def defined_def index0_def)
  have b1: "\<not> (\<exists>ds tbl job queryRows aggJob aggRows.
           catch_409 (createDataset ?bad ''test_dataset'') (dataset ?bad ''test_dataset'') = Inr ds
           \<and> catch_409 (createTable ?bad ds ''test_table'') (table ?bad ds ''test_table'') = Inr tbl
           \<and> insert_rows ?bad tbl = Inr ()
           \<and> createQueryJob ?bad (EnvQuery ds) = Inr job
           \<and> getQueryResults ?bad job = Inr queryRows
           \<and> (\<forall>row \<in> set queryRows. defined row \<and> defined (field row ''created_at''))
           \<and> createQueryJob ?bad (AggregationQuery ds) = Inr aggJob
           \<and> getQueryResults ?bad aggJob = Inr aggRows
           \<and> defined (index0 aggRows))"
    by (simp add: sample_client_def)
  have b2: "\<not> (\<exists>job rows. createQueryJob ?bad TestValueQuery = Inr job
           \<and> getQueryResults ?bad job = Inr rows \<and> rows \<noteq> []
           \<and> defined (index0 rows) \<and> defined (field (index0 rows) ''current_time''))"
    by (simp add: sample_client_def)
  have b3: "\<not> (\<exists>job rows. createQueryJob ?bad HelloQuery = Inr job
           \<and> getQueryResults ?bad job = Inr rows \<and> rows \<noteq> [] \<and> defined (index0 rows))"
    by (simp add: sample_client_def)
  have r2: "\<not> (\<exists>job rows. createQueryJob ?bare TestValueQuery = Inr job
           \<and> getQueryResults ?bare job = Inr rows \<and> rows \<noteq> []
           \<and> defined (index0 rows) \<and> defined (field (index0 rows) ''current_time''))"
    by (simp add: rows_client_def defined_def index0_def)
  have r3: "\<exists>job rows. createQueryJob ?bare HelloQuery = Inr job
           \<and> getQueryResults ?bare job = Inr rows \<and> rows \<noteq> [] \<and> defined (index0 rows)"
    by (simp add: rows_client_def defined_def index0_def)
  note good = C8_exit_codes [of ?good ?good]
  note bad = C8_exit_codes [of ?bad ?bad]
  note bare = C8_exit_codes [of ?bare ?bare]
  have "main_env ?good = 0" using good g1 by blast
  moreover have "testConnection_env ?good = 0" using good g2 by blast
  moreover have "testConnection_override ?good = 0" using good g3 by blast
  moreover have "main_env ?bad = 1" using bad b1 by blast
  moreover have "testConnection_env ?bad = 1" using bad b2 by blast
  moreover have "testConnection_override ?bad = 1" using bad b3 by blast
  moreover have "testConnection_env ?bare = 1" using bare r2 by blast
  moreover have "testConnection_override ?bare = 0" using bare r3 by blast
  ultimately show ?thesis by blast
qed

text \<open>
  Claim C8 as stated fails for the minimal test script: both attempts end in a connection
  error, each is caught and reported, and the exit code is 0.
\<close>

theorem C8_minimal_script_exits_0:
  "attempt (sample_client (\<lambda>name. Inr name) (\<lambda>q. Inl unavailable)) Query1
     = Inl (SdkError unavailable)
   \<and> attempt (sample_client (\<lambda>name. Inr name) (\<lambda>q. Inl unavailable)) Query2
     = Inl (SdkError unavailable)
   \<and> testEmulator (sample_client (\<lambda>name. Inr name) (\<lambda>q. Inl unavailable))
        (sample_client (\<lambda>name. Inr name) (\<lambda>q. Inl unavailable))
     = ([False, False], 0)"
  by (simp add: testEmulator_def attempt_def sample_client_def)

end
